theory Spec2Isabelle
  imports Main "HOL-Library.Sublist"
begin

section \<open>Conventions\<close>

text \<open>
  The TypeScript sources are embedded function by function.  A JavaScript string is
  modelled by the list of its UTF-8 bytes (type \<open>string\<close>): \<open>startsWith\<close> is
  \<^const>\<open>prefix\<close>, \<open>includes\<close> is \<^const>\<open>sublist\<close> (a contiguous run), and both agree
  with the code-unit versions of JavaScript on well-formed text.  A thrown exception is a
  value \<open>Inl e\<close>; \<open>undefined\<close> is \<open>None\<close>; a \<open>Date\<close> is its epoch milliseconds.
  Everything that the code obtains from outside (child processes, the queue, the
  file system, collaborators, clocks, generated ids) is an explicit argument.
\<close>

text \<open>
  The errors that occur: \<open>new Error(m)\<close>; the \<open>TypeError\<close> of reading a property of
  \<open>undefined\<close>; the \<open>TypeError\<close> of calling something that is not a function; and the
  \<open>ReferenceError\<close> of reading a \<open>const\<close> inside its own initialiser.
\<close>

datatype js_error =
    Error string
  | TypeError_undefined string
  | TypeError_not_a_function string
  | ReferenceError_uninitialized string

text \<open>\<open>error.message\<close>, in the engine's wording for the built-in errors.\<close>

fun message :: "js_error \<Rightarrow> string" where
  "message (Error m) = m"
| "message (TypeError_undefined p) =
     ''Cannot read properties of undefined (reading '' @ [CHR 0x27] @ p @ [CHR 0x27] @ '')''"
| "message (TypeError_not_a_function f) = f @ '' is not a function''"
| "message (ReferenceError_uninitialized x) =
     ''Cannot access '' @ [CHR 0x27] @ x @ [CHR 0x27] @ '' before initialization''"

text \<open>\<open>xs.join(sep)\<close>\<close>

fun join :: "string \<Rightarrow> string list \<Rightarrow> string" where
  "join sep [] = []"
| "join sep [x] = x"
| "join sep (x # y # ys) = x @ sep @ join sep (y # ys)"

text \<open>Template-literal rendering of an integer, most significant digit first.\<close>

definition digit_char :: "nat \<Rightarrow> char" where
  "digit_char d = ''0123456789'' ! d"

fun decimal_digits :: "nat \<Rightarrow> string \<Rightarrow> string" where
  "decimal_digits n acc =
     (if n < 10 then digit_char n # acc
      else decimal_digits (n div 10) (digit_char (n mod 10) # acc))"

declare decimal_digits.simps [simp del]

definition number_string :: "int \<Rightarrow> string" where
  "number_string i =
     (if 0 \<le> i then decimal_digits (nat i) [] else CHR ''-'' # decimal_digits (nat (- i)) [])"

text \<open>\<open>s.toLowerCase()\<close> on the ASCII letters; every other byte is kept.\<close>

definition toLowerCase_char :: "char \<Rightarrow> char" where
  "toLowerCase_char c =
     (case map_of (zip ''ABCDEFGHIJKLMNOPQRSTUVWXYZ'' ''abcdefghijklmnopqrstuvwxyz'') c of
        Some l \<Rightarrow> l
      | None \<Rightarrow> c)"

definition toLowerCase :: "string \<Rightarrow> string" where
  "toLowerCase s = map toLowerCase_char s"

text \<open>\<open>path.join(dir, file)\<close> for a directory without trailing separator and a plain file name.\<close>

definition path_join :: "string \<Rightarrow> string \<Rightarrow> string" where
  "path_join dir file = dir @ ''/'' @ file"

text \<open>
  The two calls by which the repository starts a child process:
  \<open>child_process.exec(command, options)\<close> hands one command line to a shell;
  \<open>child_process.spawn(file, args, options)\<close> passes an argument vector.  The integer is
  the \<open>timeout\<close> option.  A value of this type records that the call was made; what
  the runtime then does with it (it refuses an invalid option, the program may be missing)
  belongs to the outcome of the call.
\<close>

datatype process_launch =
    Exec string int
  | Spawn string "string list" int


section \<open>Tool invocation (ToolManager.ts)\<close>

record ToolConfig =
  tc_name :: string
  command :: string
  version :: string
  timeout :: int
  allowedArgs :: "string list"
  outputFormat :: string

record ToolExecution =
  toolName :: string
  args :: "string list"
  target :: string
  ex_timeout :: "int option"

text \<open>\<open>ToolResult\<close>; the wall-clock field \<open>executionTime\<close> is left out.\<close>

record 'p ToolResult =
  tr_success :: bool
  tr_output :: string
  tr_error :: "string option"
  tr_exitCode :: int
  tr_parsedData :: "'p option"

record ValidationResult =
  valid :: bool
  v_error :: "string option"

text \<open>\<open>initializeDefaultTools\<close>\<close>

definition nmap_config :: ToolConfig where
  "nmap_config = \<lparr>tc_name = ''nmap'', command = ''nmap'', version = ''7.93'', timeout = 300000,
     allowedArgs = [''-sS'', ''-sT'', ''-sU'', ''-O'', ''-sV'', ''-p'', ''-Pn'', ''-A'', ''-T4''],
     outputFormat = ''text''\<rparr>"

definition sqlmap_config :: ToolConfig where
  "sqlmap_config = \<lparr>tc_name = ''sqlmap'', command = ''sqlmap'', version = ''1.7'', timeout = 600000,
     allowedArgs = [''--batch'', ''--random-agent'', ''--level'', ''--risk'', ''--threads''],
     outputFormat = ''text''\<rparr>"

definition nikto_config :: ToolConfig where
  "nikto_config = \<lparr>tc_name = ''nikto'', command = ''nikto'', version = ''2.5.0'', timeout = 300000,
     allowedArgs = [''-h'', ''-p'', ''-Tuning'', ''-Plugins''],
     outputFormat = ''text''\<rparr>"

definition dirb_config :: ToolConfig where
  "dirb_config = \<lparr>tc_name = ''dirb'', command = ''dirb'', version = ''2.22'', timeout = 300000,
     allowedArgs = [''-w'', ''-t'', ''-r'', ''-l''],
     outputFormat = ''text''\<rparr>"

definition initializeDefaultTools :: "string \<rightharpoonup> ToolConfig" where
  "initializeDefaultTools =
     [''nmap'' \<mapsto> nmap_config, ''sqlmap'' \<mapsto> sqlmap_config,
      ''nikto'' \<mapsto> nikto_config, ''dirb'' \<mapsto> dirb_config]"

text \<open>
  The character class of the regular expression in \<open>validateArgs\<close>: semicolon, ampersand,
  vertical bar, backtick (0x60) and dollar sign.
\<close>

definition dangerous_chars :: "char list" where
  "dangerous_chars = [CHR '';'', CHR ''&'', CHR ''|'', CHR 0x60, CHR ''$'']"

definition has_dangerous :: "string \<Rightarrow> bool" where
  "has_dangerous arg = list_ex (\<lambda>c. c \<in> set dangerous_chars) arg"

text \<open>\<open>arg.split(' ')[0]\<close>\<close>

definition baseArg_of :: "string \<Rightarrow> string" where
  "baseArg_of arg = takeWhile (\<lambda>c. c \<noteq> CHR '' '') arg"

fun validateArgs :: "string list \<Rightarrow> string list \<Rightarrow> ValidationResult" where
  "validateArgs [] allowed = \<lparr>valid = True, v_error = None\<rparr>"
| "validateArgs (arg # rest) allowed =
     (if has_dangerous arg
      then \<lparr>valid = False, v_error = Some (''Argument contains dangerous characters: '' @ arg)\<rparr>
      else if prefix ''-'' arg \<and> \<not> list_ex (\<lambda>a. prefix a (baseArg_of arg)) allowed
      then \<lparr>valid = False, v_error = Some (''Argument not allowed: '' @ arg)\<rparr>
      else validateArgs rest allowed)"

definition buildCommand :: "ToolConfig \<Rightarrow> ToolExecution \<Rightarrow> string" where
  "buildCommand toolConfig execution =
     command toolConfig @ '' '' @ join '' '' (args execution) @ '' '' @ target execution"

text \<open>
  What \<open>execAsync\<close> settles to: resolved with \<open>stdout\<close> and \<open>stderr\<close>, or rejected with an
  error carrying \<open>message\<close>, \<open>stdout\<close> and \<open>code\<close>.
\<close>

datatype exec_outcome =
    ExecResolved string string
  | ExecRejected string "string option" "int option"

text \<open>
  The environment of one \<open>executeTool\<close> call: the outcome of the command line under a
  timeout, and the tool-specific output parser (\<open>parseOutput\<close>, which never throws).
\<close>

record 'p tool_env =
  execAsync :: "string \<Rightarrow> int \<Rightarrow> exec_outcome"
  parseOutput :: "string \<Rightarrow> string \<Rightarrow> string \<Rightarrow> 'p"

text \<open>\<open>a || b\<close> on an optional number and on an optional string.\<close>

definition or_int :: "int option \<Rightarrow> int \<Rightarrow> int" where
  "or_int a b = (case a of None \<Rightarrow> b | Some x \<Rightarrow> if x = 0 then b else x)"

definition or_string :: "string option \<Rightarrow> string \<Rightarrow> string" where
  "or_string a b = (case a of None \<Rightarrow> b | Some x \<Rightarrow> if x = [] then b else x)"

text \<open>
  \<open>executeTool\<close>, threading the list of the calls made so far to start a process; the
  call of \<open>execAsync\<close> is recorded when it is made.
\<close>

definition executeTool ::
  "(string \<rightharpoonup> ToolConfig) \<Rightarrow> 'p tool_env \<Rightarrow> ToolExecution \<Rightarrow> process_launch list
     \<Rightarrow> 'p ToolResult \<times> process_launch list" where
  "executeTool tools env execution launches =
     (case tools (toolName execution) of
        None \<Rightarrow>
          (\<lparr>tr_success = False, tr_output = [],
            tr_error = Some (''Tool '' @ toolName execution @ '' not found''),
            tr_exitCode = - 1, tr_parsedData = None\<rparr>, launches)
      | Some toolConfig \<Rightarrow>
          (let validationResult = validateArgs (args execution) (allowedArgs toolConfig) in
           if \<not> valid validationResult
           then (\<lparr>tr_success = False, tr_output = [], tr_error = v_error validationResult,
                  tr_exitCode = - 1, tr_parsedData = None\<rparr>, launches)
           else
             (let cmd = buildCommand toolConfig execution;
                  tmo = or_int (ex_timeout execution) (timeout toolConfig);
                  launches' = launches @ [Exec cmd tmo]
              in case execAsync env cmd tmo of
                   ExecResolved stdout stderr \<Rightarrow>
                     (\<lparr>tr_success = True, tr_output = stdout,
                       tr_error = (if stderr = [] then None else Some stderr),
                       tr_exitCode = 0,
                       tr_parsedData =
                         Some (parseOutput env stdout (outputFormat toolConfig) (toolName execution))\<rparr>,
                      launches')
                 | ExecRejected msg out code \<Rightarrow>
                     (\<lparr>tr_success = False, tr_output = or_string out [],
                       tr_error = Some msg, tr_exitCode = or_int code (- 1),
                       tr_parsedData = None\<rparr>, launches'))))"

text \<open>
  The launch the specification describes: the command name with the caller's arguments
  and the target as one argument vector, no shell in between.
\<close>

definition spec_vector_launch :: "ToolConfig \<Rightarrow> ToolExecution \<Rightarrow> int \<Rightarrow> process_launch" where
  "spec_vector_launch toolConfig execution tmo =
     Spawn (command toolConfig) (args execution @ [target execution]) tmo"


section \<open>Report generation (ReportGenerator.ts)\<close>

text \<open>
  \<open>ReportConfig\<close>.  The route hands the \<open>format\<close> query parameter through unchecked, so
  the field is a string; the optional presentation fields are not read by \<open>generateReport\<close>.
\<close>

record ReportConfig =
  rc_taskId :: string
  rc_taskName :: string
  rc_target :: string
  format :: string

record GenerateReportResult =
  rr_success :: bool
  rr_reportId :: string
  rr_filePath :: string
  rr_fileSize :: nat
  rr_error :: "string option"

text \<open>
  The environment of one \<open>generateReport\<close> call: the id drawn by \<open>uuidv4()\<close>, the value of
  \<open>Date.now()\<close> put into the file name, the storage directory, the two renderers (which
  read templates and may throw) and \<open>fs.writeFile\<close> (\<open>None\<close>: written).  After a successful
  write, \<open>fs.stat\<close> reports the byte length of what was written.
\<close>

record 'd report_env =
  new_reportId :: string
  file_stamp :: int
  reportStoragePath :: string
  generateHTMLReport :: "'d \<Rightarrow> js_error + string"
  generateJSONReport :: "'d \<Rightarrow> js_error + string"
  report_writeFile :: "string \<Rightarrow> string \<Rightarrow> js_error option"

text \<open>The \<open>switch\<close> on the format: the content and the file extension, or the thrown error.\<close>

definition render_format :: "'d report_env \<Rightarrow> string \<Rightarrow> 'd \<Rightarrow> js_error + (string \<times> string)" where
  "render_format env fmt reportData =
     (if fmt = ''html'' then
        (case generateHTMLReport env reportData of
           Inl e \<Rightarrow> Inl e
         | Inr reportContent \<Rightarrow> Inr (reportContent, ''html''))
      else if fmt = ''json'' then
        (case generateJSONReport env reportData of
           Inl e \<Rightarrow> Inl e
         | Inr reportContent \<Rightarrow> Inr (reportContent, ''json''))
      else if fmt = ''pdf'' then
        (case generateHTMLReport env reportData of
           Inl e \<Rightarrow> Inl e
         | Inr htmlContent \<Rightarrow> Inr (htmlContent, ''pdf''))
      else Inl (Error (''Unsupported report format: '' @ fmt)))"

definition report_failed :: "string \<Rightarrow> js_error \<Rightarrow> GenerateReportResult" where
  "report_failed reportId e =
     \<lparr>rr_success = False, rr_reportId = reportId, rr_filePath = [], rr_fileSize = 0,
      rr_error = Some (message e)\<rparr>"

definition generateReport ::
  "'d report_env \<Rightarrow> ReportConfig \<Rightarrow> 'd \<Rightarrow> (string \<rightharpoonup> string)
     \<Rightarrow> GenerateReportResult \<times> (string \<rightharpoonup> string)" where
  "generateReport env reportConfig reportData files =
     (let reportId = new_reportId env in
      case render_format env (format reportConfig) reportData of
        Inl e \<Rightarrow> (report_failed reportId e, files)
      | Inr (reportContent, fileExtension) \<Rightarrow>
          (let fileName = ''report_'' @ reportId @ ''_'' @ number_string (file_stamp env)
                            @ ''.'' @ fileExtension;
               filePath = path_join (reportStoragePath env) fileName
           in case report_writeFile env filePath reportContent of
                Some e \<Rightarrow> (report_failed reportId e, files)
              | None \<Rightarrow>
                  (\<lparr>rr_success = True, rr_reportId = reportId, rr_filePath = filePath,
                    rr_fileSize = length reportContent, rr_error = None\<rparr>,
                   files(filePath \<mapsto> reportContent))))"


section \<open>Verification sandbox (POCManager.ts)\<close>

record POCExecution =
  poc_id :: string
  vulnerabilityId :: string
  code :: string
  language :: string
  poc_description :: string
  poc_target :: string
  parameters :: "(string \<times> string) list"
  poc_timeout :: int
  sandboxed :: bool

text \<open>\<open>POCResult\<close>; the wall-clock field \<open>executionTime\<close> and the optional evidence are left out.\<close>

record POCResult =
  poc_success :: bool
  vulnerabilityConfirmed :: bool
  poc_output :: string
  poc_error :: "string option"
  reliabilityScore :: int

text \<open>
  How a spawned child ends for the promise: the \<open>close\<close> event with the exit code and the
  collected \<open>stdout\<close> and \<open>stderr\<close>, or the \<open>error\<close> event with its message and the
  \<open>stdout\<close> collected so far.
\<close>

datatype child_outcome =
    ChildClosed "int option" string string
  | ChildError string string

record poc_env =
  pocStoragePath :: string
  poc_writeFile :: "string \<Rightarrow> string \<Rightarrow> js_error option"
  child :: "process_launch \<Rightarrow> child_outcome"

record sandbox =
  sb_files :: "string \<rightharpoonup> string"
  sb_launches :: "process_launch list"

text \<open>
  \<open>getFileExtension\<close>: the four table entries, \<open>txt\<close> otherwise (the two lower-case names
  that an object literal inherits are not told apart from other unknown languages).
\<close>

definition getFileExtension :: "string \<Rightarrow> string" where
  "getFileExtension lang =
     (case map_of [(''python'', ''py''), (''javascript'', ''js''), (''bash'', ''sh''), (''shell'', ''sh'')]
             (toLowerCase lang) of
        Some ext \<Rightarrow> ext
      | None \<Rightarrow> ''txt'')"

definition savePOCCode :: "poc_env \<Rightarrow> POCExecution \<Rightarrow> sandbox \<Rightarrow> (js_error + string) \<times> sandbox" where
  "savePOCCode env execution sb =
     (let fileName = ''poc_'' @ poc_id execution @ ''.'' @ getFileExtension (language execution);
          filePath = path_join (pocStoragePath env) fileName
      in case poc_writeFile env filePath (code execution) of
           Some e \<Rightarrow> (Inl e, sb)
         | None \<Rightarrow> (Inr filePath, sb\<lparr>sb_files := (sb_files sb)(filePath \<mapsto> code execution)\<rparr>))"

text \<open>The three indicator vocabularies and their scans of \<open>stdout\<close> (\<open>stderr\<close> is not read).\<close>

definition python_indicators :: "string list" where
  "python_indicators =
     [[CHR 0xE6, CHR 0xBC, CHR 0x8F, CHR 0xE6, CHR 0xB4, CHR 0x9E, CHR 0xE5, CHR 0x8F, CHR 0xAF,
       CHR 0xE8, CHR 0x83, CHR 0xBD, CHR 0xE5, CHR 0xAD, CHR 0x98, CHR 0xE5, CHR 0x9C, CHR 0xA8],
      ''vulnerable'',
      ''VULNERABILITY'',
      [CHR 0xE6, CHR 0xA3, CHR 0x80, CHR 0xE6, CHR 0xB5, CHR 0x8B, CHR 0xE5, CHR 0x88, CHR 0xB0],
      [CHR 0xE5, CHR 0x8F, CHR 0x91, CHR 0xE7, CHR 0x8E, CHR 0xB0],
      ''[+]'']"

definition javascript_indicators :: "string list" where
  "javascript_indicators =
     [''vulnerability'',
      ''VULNERABILITY'',
      [CHR 0xE6, CHR 0xBC, CHR 0x8F, CHR 0xE6, CHR 0xB4, CHR 0x9E],
      [CHR 0xE6, CHR 0xA3, CHR 0x80, CHR 0xE6, CHR 0xB5, CHR 0x8B, CHR 0xE5, CHR 0x88, CHR 0xB0],
      [CHR 0xE5, CHR 0x8F, CHR 0x91, CHR 0xE7, CHR 0x8E, CHR 0xB0],
      ''[!]'']"

definition shell_indicators :: "string list" where
  "shell_indicators =
     [''VULNERABLE'',
      ''vulnerable'',
      [CHR 0xE6, CHR 0xBC, CHR 0x8F, CHR 0xE6, CHR 0xB4, CHR 0x9E],
      [CHR 0xE6, CHR 0x88, CHR 0x90, CHR 0xE5, CHR 0x8A, CHR 0x9F],
      ''detected'']"

definition analyzePythonOutput :: "string \<Rightarrow> string \<Rightarrow> bool" where
  "analyzePythonOutput stdout stderr = list_ex (\<lambda>indicator. sublist indicator stdout) python_indicators"

definition analyzeJavaScriptOutput :: "string \<Rightarrow> string \<Rightarrow> bool" where
  "analyzeJavaScriptOutput stdout stderr =
     list_ex (\<lambda>indicator. sublist indicator stdout) javascript_indicators"

definition analyzeShellOutput :: "string \<Rightarrow> string \<Rightarrow> bool" where
  "analyzeShellOutput stdout stderr = list_ex (\<lambda>indicator. sublist indicator stdout) shell_indicators"

text \<open>
  The \<open>close\<close> and \<open>error\<close> handlers, which the three runners write word for word alike
  but for the analyser.
\<close>

definition settle :: "(string \<Rightarrow> string \<Rightarrow> bool) \<Rightarrow> child_outcome \<Rightarrow> POCResult" where
  "settle analyse outcome =
     (case outcome of
        ChildClosed exit_code stdout stderr \<Rightarrow>
          (let confirmed = analyse stdout stderr in
           \<lparr>poc_success = (exit_code = Some 0), vulnerabilityConfirmed = confirmed,
            poc_output = stdout, poc_error = (if stderr = [] then None else Some stderr),
            reliabilityScore = (if confirmed then 80 else 20)\<rparr>)
      | ChildError msg stdout \<Rightarrow>
          \<lparr>poc_success = False, vulnerabilityConfirmed = False, poc_output = stdout,
           poc_error = Some msg, reliabilityScore = 0\<rparr>)"

definition spawn_child :: "poc_env \<Rightarrow> process_launch \<Rightarrow> sandbox \<Rightarrow> child_outcome \<times> sandbox" where
  "spawn_child env launch sb = (child env launch, sb\<lparr>sb_launches := sb_launches sb @ [launch]\<rparr>)"

text \<open>
  In \<open>executePythonPOC\<close> and \<open>executeShellPOC\<close> the child is declared as
  \<open>const process = spawn(..., { env: { ...process.env, ... } })\<close>.  Inside the function
  the name \<open>process\<close> is that constant, so the options object reads it within its own
  initialiser: evaluating the arguments of \<open>spawn\<close> throws a \<open>ReferenceError\<close> before
  \<open>spawn\<close> is called.  (\<open>executeJavaScriptPOC\<close> passes no \<open>env\<close> and is not affected.)
\<close>

definition spread_own_process_env :: "js_error + unit" where
  "spread_own_process_env = Inl (ReferenceError_uninitialized ''process'')"

text \<open>
  The three runners.  An error thrown inside the promise's executor rejects the promise,
  which \<open>executePOC\<close> awaits inside its \<open>try\<close> block.
\<close>

definition executePythonPOC ::
  "poc_env \<Rightarrow> string \<Rightarrow> POCExecution \<Rightarrow> sandbox \<Rightarrow> (js_error + POCResult) \<times> sandbox" where
  "executePythonPOC env codeFile execution sb =
     (let argv = [codeFile]
                 @ (if poc_target execution \<noteq> [] then [poc_target execution] else [])
                 @ (if parameters execution \<noteq> [] then map snd (parameters execution) else [])
      in case spread_own_process_env of
           Inl e \<Rightarrow> (Inl e, sb)
         | Inr u \<Rightarrow>
             (let (outcome, sb') =
                    spawn_child env
                      (Spawn ''python3'' argv (or_int (Some (poc_timeout execution)) 60000)) sb
              in (Inr (settle analyzePythonOutput outcome), sb')))"

definition executeJavaScriptPOC ::
  "poc_env \<Rightarrow> string \<Rightarrow> POCExecution \<Rightarrow> sandbox \<Rightarrow> (js_error + POCResult) \<times> sandbox" where
  "executeJavaScriptPOC env codeFile execution sb =
     (let argv = [codeFile] @ (if poc_target execution \<noteq> [] then [poc_target execution] else []);
          (outcome, sb') =
            spawn_child env (Spawn ''node'' argv (or_int (Some (poc_timeout execution)) 60000)) sb
      in (Inr (settle analyzeJavaScriptOutput outcome), sb'))"

definition executeShellPOC ::
  "poc_env \<Rightarrow> string \<Rightarrow> POCExecution \<Rightarrow> sandbox \<Rightarrow> (js_error + POCResult) \<times> sandbox" where
  "executeShellPOC env codeFile execution sb =
     (case spread_own_process_env of
        Inl e \<Rightarrow> (Inl e, sb)
      | Inr u \<Rightarrow>
          (let (outcome, sb') =
                 spawn_child env
                   (Spawn ''bash'' [codeFile] (or_int (Some (poc_timeout execution)) 60000)) sb
           in (Inr (settle analyzeShellOutput outcome), sb')))"

definition poc_failed :: "js_error \<Rightarrow> POCResult" where
  "poc_failed e =
     \<lparr>poc_success = False, vulnerabilityConfirmed = False, poc_output = [],
      poc_error = Some (message e), reliabilityScore = 0\<rparr>"

text \<open>The \<open>catch\<close> block of \<open>executePOC\<close> turns a rejected runner into a failed result.\<close>

definition settle_runner :: "(js_error + POCResult) \<times> sandbox \<Rightarrow> POCResult \<times> sandbox" where
  "settle_runner r = (case r of (Inl e, sb) \<Rightarrow> (poc_failed e, sb) | (Inr result, sb) \<Rightarrow> (result, sb))"

definition executePOC :: "poc_env \<Rightarrow> POCExecution \<Rightarrow> sandbox \<Rightarrow> POCResult \<times> sandbox" where
  "executePOC env execution sb =
     (case savePOCCode env execution sb of
        (Inl e, sb1) \<Rightarrow> (poc_failed e, sb1)
      | (Inr codeFile, sb1) \<Rightarrow>
          (let lang = toLowerCase (language execution) in
           if lang = ''python'' then settle_runner (executePythonPOC env codeFile execution sb1)
           else if lang = ''javascript''
           then settle_runner (executeJavaScriptPOC env codeFile execution sb1)
           else if lang = ''bash'' \<or> lang = ''shell''
           then settle_runner (executeShellPOC env codeFile execution sb1)
           else (poc_failed (Error (''Unsupported language: '' @ language execution)), sb1)))"

text \<open>The score of a run that closed without a token in its output.\<close>

definition unconfirmed_baseline :: int where
  "unconfirmed_baseline = 20"


section \<open>Persistence (SqliteDB)\<close>

record TaskRow =
  trow_id :: string
  trow_name :: string
  trow_target :: string
  trow_aiModel :: string
  trow_priority :: int
  trow_scheduledAt :: "int option"
  trow_createdAt :: int

record ExecutionRow =
  row_jobId :: string
  row_taskId :: string
  row_status :: string
  row_progress :: int
  row_currentStage :: string
  row_startedAt :: "int option"
  row_completedAt :: "int option"
  row_error :: "string option"

text \<open>
  A log row keeps the job id and the message.  Its generated id and its timestamp are not
  modelled; \<open>getLogs\<close> returns a job's rows in insertion order, which is the order of
  \<open>ORDER BY ts ASC\<close> under a clock that does not run backwards.
\<close>

record LogRow =
  log_jobId :: string
  log_message :: string

text \<open>
  The tables \<open>tasks\<close> and \<open>executions\<close> are kept as the list of the
  \<open>INSERT OR REPLACE\<close> statements run so far, oldest first: the row stored under a primary
  key is the newest one written for it.  The statements are taken to succeed.
\<close>

record SqliteDB =
  db_tasks :: "TaskRow list"
  db_executions :: "ExecutionRow list"
  db_logs :: "LogRow list"

text \<open>\<open>x || null\<close> as the statements apply it to optional numbers and strings.\<close>

definition or_null_int :: "int option \<Rightarrow> int option" where
  "or_null_int x = (case x of None \<Rightarrow> None | Some n \<Rightarrow> if n = 0 then None else Some n)"

definition or_null_string :: "string option \<Rightarrow> string option" where
  "or_null_string x = (case x of None \<Rightarrow> None | Some s \<Rightarrow> if s = [] then None else Some s)"

definition upsertTask :: "TaskRow \<Rightarrow> SqliteDB \<Rightarrow> SqliteDB" where
  "upsertTask row d =
     d\<lparr>db_tasks := db_tasks d @ [row\<lparr>trow_scheduledAt := or_null_int (trow_scheduledAt row)\<rparr>]\<rparr>"

definition upsertExecution :: "ExecutionRow \<Rightarrow> SqliteDB \<Rightarrow> SqliteDB" where
  "upsertExecution row d =
     d\<lparr>db_executions := db_executions d @
        [row\<lparr>row_startedAt := or_null_int (row_startedAt row),
             row_completedAt := or_null_int (row_completedAt row),
             row_error := or_null_string (row_error row)\<rparr>]\<rparr>"

definition appendLog :: "string \<Rightarrow> string \<Rightarrow> SqliteDB \<Rightarrow> SqliteDB" where
  "appendLog job msg d = d\<lparr>db_logs := db_logs d @ [\<lparr>log_jobId = job, log_message = msg\<rparr>]\<rparr>"

definition getExecution :: "string \<Rightarrow> SqliteDB \<Rightarrow> ExecutionRow option" where
  "getExecution job d = find (\<lambda>r. row_jobId r = job) (rev (db_executions d))"

definition getLogs :: "string \<Rightarrow> SqliteDB \<Rightarrow> LogRow list" where
  "getLogs job d = filter (\<lambda>l. log_jobId l = job) (db_logs d)"


section \<open>Task execution orchestrator (TaskManager)\<close>

subsection \<open>Data\<close>

text \<open>
  \<open>TaskConfig\<close> with the model settings flattened; \<open>temperature\<close>, \<open>maxTokens\<close> and the
  strategy are only handed on to collaborators and are left out.
\<close>

record TaskConfig =
  cfg_id :: string
  cfg_name :: string
  cfg_target :: string
  cfg_aiModel :: string
  cfg_apiKey :: string
  cfg_model :: string
  cfg_tools :: "string list"
  cfg_userId :: string
  cfg_priority :: int
  cfg_scheduledAt :: "int option"

text \<open>A finding as the orchestrator reads and marks it.\<close>

record Vulnerability =
  vuln_id :: string
  title :: string
  severity :: string
  pocVerified :: bool
  pocResult :: "POCResult option"

type_synonym scan_result = string

record TaskExecution =
  jobId :: string
  taskId :: string
  status :: string
  progress :: int
  currentStage :: string
  results :: "scan_result list"
  vulnerabilities :: "Vulnerability list"
  logs :: "string list"
  startedAt :: "int option"
  completedAt :: "int option"
  error :: "string option"

text \<open>
  How \<open>createTask\<close> left the pipeline run to be started: as a job handed to the queue
  (with priority and delay), or, when the queue refused, as a \<open>setImmediate\<close> callback.
\<close>

datatype run_request =
    Queued string TaskConfig int int
  | Immediate string TaskConfig

text \<open>
  The orchestrator's state: the in-memory map, the database, and the pipeline runs that
  have been requested.  Entries of the map are never removed.
\<close>

record TaskManager =
  activeExecutions :: "string \<rightharpoonup> TaskExecution"
  db :: SqliteDB
  requested :: "run_request list"

text \<open>The stage labels and log texts of the source, as UTF-8.\<close>

definition stage_initializing :: string where
  "stage_initializing =
     [CHR 0xE5, CHR 0x88, CHR 0x9D, CHR 0xE5, CHR 0xA7, CHR 0x8B, CHR 0xE5, CHR 0x8C, CHR 0x96,
      CHR 0xE4, CHR 0xB8, CHR 0xAD]"

definition log_task_created :: string where
  "log_task_created =
     ''INFO: '' @ [CHR 0xE4, CHR 0xBB, CHR 0xBB, CHR 0xE5, CHR 0x8A, CHR 0xA1, CHR 0xE5, CHR 0x88,
                   CHR 0x9B, CHR 0xE5, CHR 0xBB, CHR 0xBA] @ '': ''"

definition stage_init_ai :: string where
  "stage_init_ai =
     [CHR 0xE5, CHR 0x88, CHR 0x9D, CHR 0xE5, CHR 0xA7, CHR 0x8B, CHR 0xE5, CHR 0x8C, CHR 0x96]
     @ ''AI'' @ [CHR 0xE6, CHR 0x9C, CHR 0x8D, CHR 0xE5, CHR 0x8A, CHR 0xA1]"

definition stage_target_analysis :: string where
  "stage_target_analysis =
     [CHR 0xE7, CHR 0x9B, CHR 0xAE, CHR 0xE6, CHR 0xA0, CHR 0x87, CHR 0xE5, CHR 0x88, CHR 0x86,
      CHR 0xE6, CHR 0x9E, CHR 0x90]"

definition stage_chain :: string where
  "stage_chain =
     [CHR 0xE6, CHR 0x89, CHR 0xA7, CHR 0xE8, CHR 0xA1, CHR 0x8C, CHR 0xE6, CHR 0xB8, CHR 0x97,
      CHR 0xE9, CHR 0x80, CHR 0x8F, CHR 0xE6, CHR 0xB5, CHR 0x8B, CHR 0xE8, CHR 0xAF, CHR 0x95,
      CHR 0xE9, CHR 0x93, CHR 0xBE]"

definition log_chain_start :: string where
  "log_chain_start =
     ''INFO: '' @ [CHR 0xE5, CHR 0xBC, CHR 0x80, CHR 0xE5, CHR 0xA7, CHR 0x8B] @ stage_chain"

definition log_chain_done :: "nat \<Rightarrow> string" where
  "log_chain_done n =
     [CHR 0xE6, CHR 0xB8, CHR 0x97, CHR 0xE9, CHR 0x80, CHR 0x8F, CHR 0xE6, CHR 0xB5, CHR 0x8B,
      CHR 0xE8, CHR 0xAF, CHR 0x95, CHR 0xE9, CHR 0x93, CHR 0xBE, CHR 0xE6, CHR 0x89, CHR 0xA7,
      CHR 0xE8, CHR 0xA1, CHR 0x8C, CHR 0xE5, CHR 0xAE, CHR 0x8C, CHR 0xE6, CHR 0x88, CHR 0x90,
      CHR 0xEF, CHR 0xBC, CHR 0x8C, CHR 0xE5, CHR 0x8F, CHR 0x91, CHR 0xE7, CHR 0x8E, CHR 0xB0]
     @ '' '' @ number_string (int n) @ '' ''
     @ [CHR 0xE4, CHR 0xB8, CHR 0xAA, CHR 0xE6, CHR 0xBC, CHR 0x8F, CHR 0xE6, CHR 0xB4, CHR 0x9E]"

definition stage_poc :: string where
  "stage_poc =
     ''POC'' @ [CHR 0xE6, CHR 0xBC, CHR 0x8F, CHR 0xE6, CHR 0xB4, CHR 0x9E, CHR 0xE9, CHR 0xAA,
                CHR 0x8C, CHR 0xE8, CHR 0xAF, CHR 0x81]"

definition log_poc_verified :: "string \<Rightarrow> string" where
  "log_poc_verified t =
     ''INFO: '' @ [CHR 0xE6, CHR 0xBC, CHR 0x8F, CHR 0xE6, CHR 0xB4, CHR 0x9E] @ '' '' @ t
     @ '' POC'' @ [CHR 0xE9, CHR 0xAA, CHR 0x8C, CHR 0xE8, CHR 0xAF, CHR 0x81, CHR 0xE6, CHR 0x88,
                   CHR 0x90, CHR 0xE5, CHR 0x8A, CHR 0x9F]"

definition stage_report :: string where
  "stage_report =
     [CHR 0xE7, CHR 0x94, CHR 0x9F, CHR 0xE6, CHR 0x88, CHR 0x90, CHR 0xE6, CHR 0x8A, CHR 0xA5,
      CHR 0xE5, CHR 0x91, CHR 0x8A]"

definition log_report :: string where
  "log_report =
     ''INFO: '' @ [CHR 0xE7, CHR 0x94, CHR 0x9F, CHR 0xE6, CHR 0x88, CHR 0x90, CHR 0xE6, CHR 0xB8,
                   CHR 0x97, CHR 0xE9, CHR 0x80, CHR 0x8F, CHR 0xE6, CHR 0xB5, CHR 0x8B, CHR 0xE8,
                   CHR 0xAF, CHR 0x95, CHR 0xE6, CHR 0x8A, CHR 0xA5, CHR 0xE5, CHR 0x91, CHR 0x8A]"

definition stage_done :: string where
  "stage_done =
     [CHR 0xE4, CHR 0xBB, CHR 0xBB, CHR 0xE5, CHR 0x8A, CHR 0xA1, CHR 0xE5, CHR 0xAE, CHR 0x8C,
      CHR 0xE6, CHR 0x88, CHR 0x90]"

definition log_failed :: "string \<Rightarrow> string" where
  "log_failed m =
     [CHR 0xE4, CHR 0xBB, CHR 0xBB, CHR 0xE5, CHR 0x8A, CHR 0xA1, CHR 0xE5, CHR 0xA4, CHR 0xB1,
      CHR 0xE8, CHR 0xB4, CHR 0xA5] @ '': '' @ m"

definition log_progress :: "string \<Rightarrow> int \<Rightarrow> string" where
  "log_progress stage p = ''INFO: '' @ stage @ '' - '' @ number_string p @ ''%''"


subsection \<open>Submission and queries\<close>

text \<open>
  The environment of one \<open>createTask\<close> call: the id drawn by \<open>uuidv4()\<close>, the two
  readings of \<open>Date.now()\<close>, and whether \<open>taskQueue.add\<close> rejected (\<open>None\<close>: accepted).
\<close>

record create_env =
  new_jobId :: string
  created_now :: int
  delay_now :: int
  queue_add :: "js_error option"

definition createTask :: "create_env \<Rightarrow> TaskConfig \<Rightarrow> TaskManager \<Rightarrow> (string \<times> string) \<times> TaskManager" where
  "createTask env taskConfig s =
     (let jid = new_jobId env;
          execution = \<lparr>jobId = jid, taskId = cfg_id taskConfig, status = ''pending'', progress = 0,
                       currentStage = stage_initializing, results = [], vulnerabilities = [],
                       logs = [], startedAt = None, completedAt = None, error = None\<rparr>;
          s1 = s\<lparr>db := appendLog jid (log_task_created @ cfg_name taskConfig) (db s)\<rparr>;
          s2 = s1\<lparr>activeExecutions := (activeExecutions s1)(jid \<mapsto> execution)\<rparr>;
          s3 = s2\<lparr>db := upsertTask
                   \<lparr>trow_id = cfg_id taskConfig, trow_name = cfg_name taskConfig,
                    trow_target = cfg_target taskConfig, trow_aiModel = cfg_aiModel taskConfig,
                    trow_priority = cfg_priority taskConfig,
                    trow_scheduledAt = cfg_scheduledAt taskConfig,
                    trow_createdAt = created_now env\<rparr> (db s2)\<rparr>;
          s4 = s3\<lparr>db := upsertExecution
                   \<lparr>row_jobId = jid, row_taskId = cfg_id taskConfig, row_status = ''pending'',
                    row_progress = 0, row_currentStage = stage_initializing,
                    row_startedAt = None, row_completedAt = None, row_error = None\<rparr> (db s3)\<rparr>;
          delay = (case cfg_scheduledAt taskConfig of None \<Rightarrow> 0 | Some t \<Rightarrow> t - delay_now env);
          request = (case queue_add env of
                       None \<Rightarrow> Queued jid taskConfig (cfg_priority taskConfig) delay
                     | Some e \<Rightarrow> Immediate jid taskConfig)
      in ((cfg_id taskConfig, jid), s4\<lparr>requested := requested s4 @ [request]\<rparr>))"

definition getTaskStatus :: "string \<Rightarrow> TaskManager \<Rightarrow> TaskExecution option" where
  "getTaskStatus jid s =
     (case activeExecutions s jid of
        Some inMem \<Rightarrow> Some inMem
      | None \<Rightarrow>
          (case getExecution jid (db s) of
             None \<Rightarrow> None
           | Some row \<Rightarrow>
               Some \<lparr>jobId = row_jobId row, taskId = row_taskId row, status = row_status row,
                     progress = row_progress row, currentStage = row_currentStage row,
                     results = [], vulnerabilities = [],
                     logs = map log_message (getLogs jid (db s)),
                     startedAt = or_null_int (row_startedAt row),
                     completedAt = or_null_int (row_completedAt row),
                     error = row_error row\<rparr>))"

subsection \<open>Control operations\<close>

text \<open>
  The job ids of the orchestrator come from \<open>uuidv4()\<close>: 36 characters, hyphens at the
  positions 8, 13, 18 and 23, the version digit 4 at position 14, lower-case hexadecimal
  digits elsewhere.
\<close>

definition is_hex :: "char \<Rightarrow> bool" where
  "is_hex c = (c \<in> set ''0123456789abcdef'')"

definition is_uuid :: "string \<Rightarrow> bool" where
  "is_uuid s =
     (length s = 36
      \<and> s ! 8 = CHR ''-'' \<and> s ! 13 = CHR ''-'' \<and> s ! 18 = CHR ''-'' \<and> s ! 23 = CHR ''-''
      \<and> s ! 14 = CHR ''4''
      \<and> list_all is_hex (filter (\<lambda>c. c \<noteq> CHR ''-'') s)
      \<and> length (filter (\<lambda>c. c \<noteq> CHR ''-'') s) = 32)"

text \<open>
  The queue library (Bull), as far as the control operations meet it.  \<open>createTask\<close>
  adds its job with the options \<open>priority\<close> and \<open>delay\<close> only, so the queue files the
  job under the next value of its own integer counter; \<open>getJob(id)\<close> rejects when the
  store cannot be reached and otherwise returns the job filed under exactly that id, if
  any.  A job of the queue offers \<open>remove()\<close>, which may throw; it has no method
  \<open>pause\<close> or \<open>resume\<close>, so calling one throws a \<open>TypeError\<close>.
\<close>

record bull_job =
  bull_data_jobId :: string
  remove_throws :: "js_error option"

text \<open>
  The queue at the time of one control operation: whether \<open>getJob\<close> rejects, and the
  jobs it holds under the ids it assigned.
\<close>

record queue_env =
  getJob_rejects :: "js_error option"
  held :: "nat \<rightharpoonup> bull_job"

definition is_digit :: "char \<Rightarrow> bool" where
  "is_digit c = (c \<in> set ''0123456789'')"

definition decimal_value :: "string \<Rightarrow> nat" where
  "decimal_value s = foldl (\<lambda>acc c. 10 * acc + (of_char c - 48)) 0 s"

text \<open>The counter value that is written as the given string, if there is one.\<close>

definition bull_id :: "string \<Rightarrow> nat option" where
  "bull_id s =
     (if s \<noteq> [] \<and> list_all is_digit s \<and> number_string (int (decimal_value s)) = s
      then Some (decimal_value s) else None)"

definition getJob :: "queue_env \<Rightarrow> string \<Rightarrow> js_error + bull_job option" where
  "getJob q jid =
     (case getJob_rejects q of
        Some e \<Rightarrow> Inl e
      | None \<Rightarrow> Inr (case bull_id jid of None \<Rightarrow> None | Some n \<Rightarrow> held q n))"

definition job_pause :: "bull_job \<Rightarrow> js_error + unit" where
  "job_pause job = Inl (TypeError_not_a_function ''job.pause'')"

definition job_resume :: "bull_job \<Rightarrow> js_error + unit" where
  "job_resume job = Inl (TypeError_not_a_function ''job.resume'')"

definition job_remove :: "bull_job \<Rightarrow> js_error + unit" where
  "job_remove job = (case remove_throws job of Some e \<Rightarrow> Inl e | None \<Rightarrow> Inr ())"

definition pauseTask :: "queue_env \<Rightarrow> string \<Rightarrow> TaskManager \<Rightarrow> bool \<times> TaskManager" where
  "pauseTask q jid s =
     (case getJob q jid of
        Inl e \<Rightarrow> (False, s)
      | Inr None \<Rightarrow> (False, s)
      | Inr (Some job) \<Rightarrow>
          (case job_pause job of
             Inl e \<Rightarrow> (False, s)
           | Inr u \<Rightarrow>
               (case activeExecutions s jid of
                  Some execution \<Rightarrow>
                    (True, s\<lparr>activeExecutions :=
                                (activeExecutions s)(jid \<mapsto> execution\<lparr>status := ''paused''\<rparr>)\<rparr>)
                | None \<Rightarrow> (True, s))))"

definition resumeTask :: "queue_env \<Rightarrow> string \<Rightarrow> TaskManager \<Rightarrow> bool \<times> TaskManager" where
  "resumeTask q jid s =
     (case getJob q jid of
        Inl e \<Rightarrow> (False, s)
      | Inr None \<Rightarrow> (False, s)
      | Inr (Some job) \<Rightarrow>
          (case job_resume job of
             Inl e \<Rightarrow> (False, s)
           | Inr u \<Rightarrow>
               (case activeExecutions s jid of
                  Some execution \<Rightarrow>
                    (True, s\<lparr>activeExecutions :=
                                (activeExecutions s)(jid \<mapsto> execution\<lparr>status := ''running''\<rparr>)\<rparr>)
                | None \<Rightarrow> (True, s))))"

text \<open>\<open>cancelTask\<close>; \<open>now\<close> is the \<open>new Date()\<close> it stamps.\<close>

definition cancelTask :: "queue_env \<Rightarrow> int \<Rightarrow> string \<Rightarrow> TaskManager \<Rightarrow> bool \<times> TaskManager" where
  "cancelTask q now jid s =
     (case getJob q jid of
        Inl e \<Rightarrow> (False, s)
      | Inr None \<Rightarrow> (False, s)
      | Inr (Some job) \<Rightarrow>
          (case job_remove job of
             Inl e \<Rightarrow> (False, s)
           | Inr u \<Rightarrow>
               (case activeExecutions s jid of
                  Some execution \<Rightarrow>
                    (True, s\<lparr>activeExecutions := (activeExecutions s)
                                 (jid \<mapsto> execution\<lparr>status := ''cancelled'',
                                                      completedAt := Some now\<rparr>)\<rparr>)
                | None \<Rightarrow> (True, s))))"

subsection \<open>The pipeline\<close>

text \<open>A mutation of the execution object held under a key of the in-memory map.\<close>

definition mutate :: "string \<Rightarrow> (TaskExecution \<Rightarrow> TaskExecution) \<Rightarrow> TaskManager \<Rightarrow> TaskManager" where
  "mutate k f s =
     (case activeExecutions s k of
        None \<Rightarrow> s
      | Some execution \<Rightarrow> s\<lparr>activeExecutions := (activeExecutions s)(k \<mapsto> f execution)\<rparr>)"

text \<open>\<open>execution.logs.push(m)\<close> followed by \<open>db.appendLog\<close> under \<open>execution.jobId\<close>.\<close>

definition log_line :: "string \<Rightarrow> string \<Rightarrow> TaskManager \<Rightarrow> TaskManager" where
  "log_line k m s =
     (case activeExecutions s k of
        None \<Rightarrow> s
      | Some execution \<Rightarrow>
          s\<lparr>activeExecutions := (activeExecutions s)(k \<mapsto> execution\<lparr>logs := logs execution @ [m]\<rparr>),
            db := appendLog (jobId execution) m (db s)\<rparr>)"

definition updateExecutionProgress :: "string \<Rightarrow> int \<Rightarrow> string \<Rightarrow> TaskManager \<Rightarrow> TaskManager" where
  "updateExecutionProgress jid p stage s =
     (case activeExecutions s jid of
        None \<Rightarrow> s
      | Some execution \<Rightarrow>
          (let execution' = execution\<lparr>progress := p, currentStage := stage,
                                       logs := logs execution @ [log_progress stage p]\<rparr>;
               d1 = appendLog jid (log_progress stage p) (db s);
               d2 = upsertExecution
                      \<lparr>row_jobId = jid, row_taskId = taskId execution', row_status = status execution',
                       row_progress = p, row_currentStage = stage,
                       row_startedAt = startedAt execution',
                       row_completedAt = completedAt execution',
                       row_error = error execution'\<rparr> d1
           in s\<lparr>activeExecutions := (activeExecutions s)(jid \<mapsto> execution'), db := d2\<rparr>))"

text \<open>The handler of the \<open>update-status\<close> queue.\<close>

definition updateExecutionStatus :: "string \<Rightarrow> string \<Rightarrow> int \<Rightarrow> string \<Rightarrow> TaskManager \<Rightarrow> TaskManager" where
  "updateExecutionStatus jid st p stage s =
     mutate jid (\<lambda>execution. execution\<lparr>status := st, progress := p, currentStage := stage\<rparr>) s"

record ChainResult =
  chain_success :: bool
  chain_results :: "scan_result list"
  chain_vulnerabilities :: "Vulnerability list"

text \<open>
  The environment of one \<open>executeTask\<close> call: the readings of the clock (for \<open>startedAt\<close>,
  for the second write of the start, for \<open>completedAt\<close> on either exit, and for the
  returned \<open>executionTime\<close>), whether \<open>llmService.initialize\<close> throws, what
  \<open>pentestEngine.executeChain\<close> settles to, and what generating and executing the
  verification code settles to in the round of the loop with the given index, on the
  given finding.
\<close>

record exec_env =
  started_now :: int
  started_again :: int
  finished_now :: int
  returned_now :: int
  llm_initialize :: "js_error option"
  executeChain :: "js_error + ChainResult"
  verify :: "nat \<Rightarrow> Vulnerability \<Rightarrow> js_error + POCResult"

text \<open>The loop over the findings; an error inside one round is logged and swallowed.\<close>

fun verifyVulnerabilities ::
  "(nat \<Rightarrow> Vulnerability \<Rightarrow> js_error + POCResult) \<Rightarrow> string \<Rightarrow> nat \<Rightarrow> Vulnerability list
     \<Rightarrow> TaskManager \<Rightarrow> Vulnerability list \<times> TaskManager" where
  "verifyVulnerabilities vf k i [] s = ([], s)"
| "verifyVulnerabilities vf k i (vulnerability # rest) s =
     (let (vulnerability', s') =
            (case vf i vulnerability of
               Inl e \<Rightarrow> (vulnerability, s)
             | Inr r \<Rightarrow>
                 if vulnerabilityConfirmed r
                 then (vulnerability\<lparr>pocVerified := True, pocResult := Some r\<rparr>,
                       log_line k (log_poc_verified (title vulnerability)) s)
                 else (vulnerability, s));
          (rest', s'') = verifyVulnerabilities vf k (Suc i) rest s'
      in (vulnerability' # rest', s''))"

definition executePentestChain ::
  "exec_env \<Rightarrow> TaskConfig \<Rightarrow> string \<Rightarrow> TaskManager
     \<Rightarrow> (js_error + scan_result list \<times> Vulnerability list) \<times> TaskManager" where
  "executePentestChain env taskConfig k s =
     (let s1 = log_line k log_chain_start (mutate k (\<lambda>e. e\<lparr>currentStage := stage_chain\<rparr>) s) in
      case executeChain env of
        Inl err \<Rightarrow> (Inl err, s1)
      | Inr result \<Rightarrow>
          if \<not> chain_success result then (Inl (Error ''Pentest chain execution failed''), s1)
          else
            (let found = chain_vulnerabilities result;
                 s2 = mutate k (\<lambda>e. e\<lparr>logs := logs e @ [log_chain_done (length found)]\<rparr>) s1
             in if 0 < length found
                then
                  (let s3 = mutate k (\<lambda>e. e\<lparr>currentStage := stage_poc\<rparr>) s2;
                       s4 = (case activeExecutions s3 k of
                               None \<Rightarrow> s3
                             | Some e \<Rightarrow> updateExecutionProgress (jobId e) 60 stage_poc s3);
                       (found', s5) = verifyVulnerabilities (verify env) k 0 found s4
                   in (Inr (chain_results result, found'), s5))
                else (Inr (chain_results result, found), s2)))"

text \<open>The report object of the private \<open>generateReport\<close>, without \<open>generatedAt\<close>.\<close>

record Report =
  rep_taskId :: string
  rep_taskName :: string
  rep_target :: string
  rep_executionTime :: int
  rep_vulnerabilities :: "Vulnerability list"
  rep_results :: "scan_result list"
  totalVulnerabilities :: nat
  critical :: nat
  high :: nat
  medium :: nat
  low :: nat

definition count_severity :: "string \<Rightarrow> Vulnerability list \<Rightarrow> nat" where
  "count_severity sev vs = length (filter (\<lambda>v. severity v = sev) vs)"

text \<open>
  The private \<open>generateReport\<close> of the orchestrator.  \<open>execution.completedAt!.getTime()\<close>
  is evaluated first and throws a \<open>TypeError\<close> when \<open>completedAt\<close> is \<open>undefined\<close>, then
  \<open>execution.startedAt!.getTime()\<close> likewise.
\<close>

definition TaskManager_generateReport ::
  "TaskConfig \<Rightarrow> string \<Rightarrow> TaskManager \<Rightarrow> (js_error + Report) \<times> TaskManager" where
  "TaskManager_generateReport taskConfig k s =
     (let s1 = log_line k log_report s in
      case activeExecutions s1 k of
        None \<Rightarrow> (Inl (TypeError_undefined ''completedAt''), s1)
      | Some execution \<Rightarrow>
          (case completedAt execution of
             None \<Rightarrow> (Inl (TypeError_undefined ''getTime''), s1)
           | Some finished \<Rightarrow>
               (case startedAt execution of
                  None \<Rightarrow> (Inl (TypeError_undefined ''getTime''), s1)
                | Some started \<Rightarrow>
                    (Inr \<lparr>rep_taskId = cfg_id taskConfig, rep_taskName = cfg_name taskConfig,
                          rep_target = cfg_target taskConfig,
                          rep_executionTime = finished - started,
                          rep_vulnerabilities = vulnerabilities execution,
                          rep_results = results execution,
                          totalVulnerabilities = length (vulnerabilities execution),
                          critical = count_severity ''critical'' (vulnerabilities execution),
                          high = count_severity ''high'' (vulnerabilities execution),
                          medium = count_severity ''medium'' (vulnerabilities execution),
                          low = count_severity ''low'' (vulnerabilities execution)\<rparr>, s1))))"

record ExecReturn =
  ret_success :: bool
  ret_taskId :: string
  ret_jobId :: string
  ret_results :: "scan_result list"
  ret_vulnerabilities :: "Vulnerability list"
  ret_report :: Report
  ret_executionTime :: int

text \<open>Lines 207 to 233: the transition to \<open>running\<close> and its two writes.\<close>

definition run_start :: "exec_env \<Rightarrow> string \<Rightarrow> TaskConfig \<Rightarrow> TaskManager \<Rightarrow> TaskManager" where
  "run_start env k taskConfig s =
     (let s1 = mutate k (\<lambda>e. e\<lparr>status := ''running'', startedAt := Some (started_now env),
                                currentStage := stage_init_ai\<rparr>) s
      in case activeExecutions s1 k of
           None \<Rightarrow> s1
         | Some execution \<Rightarrow>
             (let row = \<lparr>row_jobId = k, row_taskId = cfg_id taskConfig, row_status = ''running'',
                         row_progress = progress execution,
                         row_currentStage = currentStage execution,
                         row_startedAt = Some (started_now env), row_completedAt = None,
                         row_error = None\<rparr>
              in s1\<lparr>db := upsertExecution (row\<lparr>row_startedAt := Some (started_again env)\<rparr>)
                             (upsertExecution row (db s1))\<rparr>))"

text \<open>Lines 235 to 239: initialisation of the AI service and the checkpoint 10.\<close>

definition run_init :: "exec_env \<Rightarrow> string \<Rightarrow> TaskManager \<Rightarrow> (js_error + unit) \<times> TaskManager" where
  "run_init env k s =
     (case llm_initialize env of
        Some err \<Rightarrow> (Inl err, s)
      | None \<Rightarrow>
          (Inr (), updateExecutionProgress k 10 stage_target_analysis
                     (mutate k (\<lambda>e. e\<lparr>progress := 10, currentStage := stage_target_analysis\<rparr>) s)))"

text \<open>Lines 241 to 248: the chain with its verification pass and the checkpoint 80.\<close>

definition run_chain ::
  "exec_env \<Rightarrow> string \<Rightarrow> TaskConfig \<Rightarrow> TaskManager
     \<Rightarrow> (js_error + scan_result list \<times> Vulnerability list) \<times> TaskManager" where
  "run_chain env k taskConfig s =
     (case executePentestChain env taskConfig k s of
        (Inl err, s') \<Rightarrow> (Inl err, s')
      | (Inr (rs, vs), s') \<Rightarrow>
          (Inr (rs, vs),
           updateExecutionProgress k 80 stage_report
             (mutate k (\<lambda>e. e\<lparr>results := rs, vulnerabilities := vs, progress := 80,
                              currentStage := stage_report\<rparr>) s')))"

text \<open>Lines 250 to 292: report assembly, the checkpoint 100, completion and the return value.\<close>

definition run_report ::
  "exec_env \<Rightarrow> string \<Rightarrow> TaskConfig \<Rightarrow> scan_result list \<Rightarrow> Vulnerability list \<Rightarrow> TaskManager
     \<Rightarrow> (js_error + ExecReturn) \<times> TaskManager" where
  "run_report env k taskConfig rs vs s =
     (case TaskManager_generateReport taskConfig k s of
        (Inl err, s') \<Rightarrow> (Inl err, s')
      | (Inr report, s') \<Rightarrow>
          (let s1 = mutate k (\<lambda>e. e\<lparr>progress := 100, currentStage := stage_done,
                                     status := ''completed'',
                                     completedAt := Some (finished_now env)\<rparr>) s';
               s2 = updateExecutionProgress k 100 stage_done s1
           in case activeExecutions s2 k of
                None \<Rightarrow> (Inl (TypeError_undefined ''startedAt''), s2)
              | Some execution \<Rightarrow>
                  (case startedAt execution of
                     None \<Rightarrow> (Inl (TypeError_undefined ''getTime''), s2)
                   | Some started \<Rightarrow>
                       (case completedAt execution of
                          None \<Rightarrow> (Inl (TypeError_undefined ''getTime''), s2)
                        | Some finished \<Rightarrow>
                            (let row = \<lparr>row_jobId = k, row_taskId = cfg_id taskConfig,
                                        row_status = ''completed'', row_progress = 100,
                                        row_currentStage = stage_done,
                                        row_startedAt = Some started,
                                        row_completedAt = Some finished, row_error = None\<rparr>;
                                 s3 = s2\<lparr>db := upsertExecution row (upsertExecution row (db s2))\<rparr>
                             in (Inr \<lparr>ret_success = True, ret_taskId = cfg_id taskConfig,
                                      ret_jobId = k, ret_results = rs, ret_vulnerabilities = vs,
                                      ret_report = report,
                                      ret_executionTime = returned_now env - started\<rparr>, s3))))))"

text \<open>The body of the \<open>try\<close> block.\<close>

definition executeTask_try ::
  "exec_env \<Rightarrow> string \<Rightarrow> TaskConfig \<Rightarrow> TaskManager \<Rightarrow> (js_error + ExecReturn) \<times> TaskManager" where
  "executeTask_try env k taskConfig s =
     (case run_init env k (run_start env k taskConfig s) of
        (Inl err, s1) \<Rightarrow> (Inl err, s1)
      | (Inr u, s1) \<Rightarrow>
          (case run_chain env k taskConfig s1 of
             (Inl err, s2) \<Rightarrow> (Inl err, s2)
           | (Inr (rs, vs), s2) \<Rightarrow> run_report env k taskConfig rs vs s2))"

text \<open>The \<open>catch\<close> block, which records the failure before the error is thrown on.\<close>

definition executeTask_catch ::
  "exec_env \<Rightarrow> string \<Rightarrow> TaskConfig \<Rightarrow> js_error \<Rightarrow> TaskManager \<Rightarrow> TaskManager" where
  "executeTask_catch env k taskConfig err s =
     (let s1 = mutate k (\<lambda>e. e\<lparr>status := ''failed'', error := Some (message err),
                                completedAt := Some (finished_now env),
                                logs := logs e @ [log_failed (message err)]\<rparr>) s
      in case activeExecutions s1 k of
           None \<Rightarrow> s1
         | Some execution \<Rightarrow>
             s1\<lparr>db := upsertExecution
                    \<lparr>row_jobId = k, row_taskId = cfg_id taskConfig, row_status = ''failed'',
                     row_progress = progress execution,
                     row_currentStage = currentStage execution,
                     row_startedAt = startedAt execution,
                     row_completedAt = Some (finished_now env),
                     row_error = Some (message err)\<rparr> (db s1)\<rparr>)"

definition executeTask ::
  "exec_env \<Rightarrow> string \<Rightarrow> TaskConfig \<Rightarrow> TaskManager \<Rightarrow> (js_error + ExecReturn) \<times> TaskManager" where
  "executeTask env k taskConfig s =
     (case activeExecutions s k of
        None \<Rightarrow> (Inl (Error ''Task execution not found''), s)
      | Some execution \<Rightarrow>
          (case executeTask_try env k taskConfig s of
             (Inl err, s') \<Rightarrow> (Inl err, executeTask_catch env k taskConfig err s')
           | (Inr r, s') \<Rightarrow> (Inr r, s')))"

text \<open>The progress values written to the \<open>executions\<close> table for a job, oldest first.\<close>

definition persisted_progress :: "string \<Rightarrow> TaskManager \<Rightarrow> int list" where
  "persisted_progress k s =
     map row_progress (filter (\<lambda>r. row_jobId r = k) (db_executions (db s)))"


text \<open>
  What the results below observe of a job: the record held under its key carries that key
  as its \<open>jobId\<close> and has the given status, progress and timestamps, and the progress
  values written to the table for it are the given list.
\<close>

definition job_at ::
  "string \<Rightarrow> TaskManager \<Rightarrow> string \<Rightarrow> int \<Rightarrow> int option \<Rightarrow> int option \<Rightarrow> int list \<Rightarrow> bool" where
  "job_at k s st p started finished rows =
     ((\<exists>e. activeExecutions s k = Some e \<and> jobId e = k \<and> status e = st \<and> progress e = p
           \<and> startedAt e = started \<and> completedAt e = finished)
      \<and> persisted_progress k s = rows)"


section \<open>Concrete inputs\<close>

text \<open>The inputs at which the results below are instantiated.\<close>

definition stub_tool_env :: "unit tool_env" where
  "stub_tool_env = \<lparr>execAsync = (\<lambda>cmd tmo. ExecResolved [] []), parseOutput = (\<lambda>out fmt nm. ())\<rparr>"

definition rm_rf_execution :: ToolExecution where
  "rm_rf_execution =
     \<lparr>toolName = ''nmap'', args = [''; rm -rf /''], target = ''example.com'', ex_timeout = None\<rparr>"

definition nmap_sS_execution :: ToolExecution where
  "nmap_sS_execution =
     \<lparr>toolName = ''nmap'', args = [''-sS''], target = ''example.com'', ex_timeout = None\<rparr>"

definition stub_report_env :: "unit report_env" where
  "stub_report_env =
     \<lparr>new_reportId = ''r1'', file_stamp = 1000, reportStoragePath = ''/app/reports'',
      generateHTMLReport = (\<lambda>d. Inr ''<html></html>''),
      generateJSONReport = (\<lambda>d. Inr ''{}''),
      report_writeFile = (\<lambda>p c. None)\<rparr>"

definition pdf_config :: ReportConfig where
  "pdf_config = \<lparr>rc_taskId = ''t1'', rc_taskName = ''t1'', rc_target = [], format = ''pdf''\<rparr>"

definition docx_config :: ReportConfig where
  "docx_config = \<lparr>rc_taskId = ''t1'', rc_taskName = ''t1'', rc_target = [], format = ''docx''\<rparr>"

definition no_files :: "string \<rightharpoonup> string" where
  "no_files = Map.empty"

definition python_job :: POCExecution where
  "python_job =
     \<lparr>poc_id = ''p1'', vulnerabilityId = ''v1'', code = ''print(1)'', language = ''Python'',
      poc_description = [], poc_target = ''http://example.com'', parameters = [],
      poc_timeout = 30000, sandboxed = True\<rparr>"

text \<open>A child that, once started, prints a positive token and exits with 0.\<close>

definition plus_env :: poc_env where
  "plus_env =
     \<lparr>pocStoragePath = ''/app/poc-codes'', poc_writeFile = (\<lambda>p c. None),
      child = (\<lambda>l. ChildClosed (Some 0) ''[+] VULNERABILITY'' [])\<rparr>"

definition empty_sandbox :: sandbox where
  "empty_sandbox = \<lparr>sb_files = Map.empty, sb_launches = []\<rparr>"

definition empty_manager :: TaskManager where
  "empty_manager =
     \<lparr>activeExecutions = Map.empty,
      db = \<lparr>db_tasks = [], db_executions = [], db_logs = []\<rparr>,
      requested = []\<rparr>"

definition t1_config :: TaskConfig where
  "t1_config =
     \<lparr>cfg_id = ''task_1'', cfg_name = ''t1'', cfg_target = ''example.com'',
      cfg_aiModel = ''openai'', cfg_apiKey = [], cfg_model = ''gpt-4'', cfg_tools = [''nmap''],
      cfg_userId = ''anonymous'', cfg_priority = 3, cfg_scheduledAt = None\<rparr>"

definition t1_create_env :: create_env where
  "t1_create_env = \<lparr>new_jobId = ''job-1'', created_now = 1000, delay_now = 1000, queue_add = None\<rparr>"

definition t1_created :: TaskManager where
  "t1_created = snd (createTask t1_create_env t1_config empty_manager)"

text \<open>Collaborators that all succeed, the chain returning one scan result and no finding.\<close>

definition ok_exec_env :: exec_env where
  "ok_exec_env =
     \<lparr>started_now = 2000, started_again = 2001, finished_now = 3000, returned_now = 3001,
      llm_initialize = None,
      executeChain = Inr \<lparr>chain_success = True, chain_results = [''scan''],
                          chain_vulnerabilities = []\<rparr>,
      verify = (\<lambda>i v. Inl (Error ''not called''))\<rparr>"

text \<open>The job after its first attempt.\<close>

definition t1_failed :: TaskManager where
  "t1_failed = snd (executeTask ok_exec_env ''job-1'' t1_config t1_created)"

text \<open>
  A job under an id as \<open>uuidv4()\<close> draws it: created, taken up by a run, after its first
  attempt, and after the attempt that follows.
\<close>

definition u1 :: string where
  "u1 = ''1b9d6bcd-bbfd-4b2d-9b5d-ab8dfbbd4bed''"

definition u1_create_env :: create_env where
  "u1_create_env = \<lparr>new_jobId = u1, created_now = 1000, delay_now = 1000, queue_add = None\<rparr>"

definition u1_created :: TaskManager where
  "u1_created = snd (createTask u1_create_env t1_config empty_manager)"

definition u1_running :: TaskManager where
  "u1_running = run_start ok_exec_env u1 t1_config u1_created"

definition u1_failed :: TaskManager where
  "u1_failed = snd (executeTask ok_exec_env u1 t1_config u1_created)"

definition u1_completed :: TaskManager where
  "u1_completed = snd (executeTask ok_exec_env u1 t1_config u1_failed)"

text \<open>A queue that holds the job of that task under its first counter value.\<close>

definition queue_with_job :: queue_env where
  "queue_with_job =
     \<lparr>getJob_rejects = None,
      held = [1 \<mapsto> \<lparr>bull_data_jobId = u1, remove_throws = None\<rparr>]\<rparr>"

text \<open>A fresh process over a database that holds a running job at progress 40.\<close>

definition persisted_only_manager :: TaskManager where
  "persisted_only_manager =
     empty_manager\<lparr>db := \<lparr>db_tasks = [],
        db_executions = [\<lparr>row_jobId = ''job-1'', row_taskId = ''task_1'', row_status = ''running'',
                          row_progress = 40, row_currentStage = stage_chain,
                          row_startedAt = Some 2000, row_completedAt = None, row_error = None\<rparr>],
        db_logs = []\<rparr>\<rparr>"

section \<open>Tool invocation: results\<close>

lemma validateArgs_dangerous:
  "list_ex has_dangerous as \<Longrightarrow> \<not> valid (validateArgs as allowed)"
  by (induction as) auto

lemma validateArgs_invalid_error:
  "\<not> valid (validateArgs as allowed) \<Longrightarrow> v_error (validateArgs as allowed) \<noteq> None"
  by (induction as) auto

text \<open>
  C1.  Whatever the tool name and the configured tools, an argument list in which some
  argument contains a semicolon, ampersand, vertical bar, backtick or dollar sign makes
  \<open>executeTool\<close> return an unsuccessful result carrying an error, and the list of
  launched processes is the one it was given: no subprocess is started.
\<close>

theorem executeTool_rejects_metacharacters:
  assumes "list_ex has_dangerous (args execution)"
  shows "tr_success (fst (executeTool tools env execution launches)) = False
       \<and> tr_error (fst (executeTool tools env execution launches)) \<noteq> None
       \<and> tr_exitCode (fst (executeTool tools env execution launches)) = - 1
       \<and> snd (executeTool tools env execution launches) = launches"
proof (cases "tools (toolName execution)")
  case None
  then show ?thesis by (simp add: executeTool_def)
next
  case (Some toolConfig)
  have inv: "\<not> valid (validateArgs (args execution) (allowedArgs toolConfig))"
    using assms by (rule validateArgs_dangerous)
  then have "v_error (validateArgs (args execution) (allowedArgs toolConfig)) \<noteq> None"
    by (rule validateArgs_invalid_error)
  with Some inv show ?thesis by (simp add: executeTool_def Let_def)
qed

theorem executeTool_rejects_rm_rf_witness:
  "list_ex has_dangerous (args rm_rf_execution)
   \<and> tr_success (fst (executeTool initializeDefaultTools stub_tool_env rm_rf_execution [])) = False
   \<and> tr_error (fst (executeTool initializeDefaultTools stub_tool_env rm_rf_execution [])) \<noteq> None
   \<and> snd (executeTool initializeDefaultTools stub_tool_env rm_rf_execution []) = []"
proof -
  have h: "list_ex has_dangerous (args rm_rf_execution)"
    by (simp add: rm_rf_execution_def has_dangerous_def dangerous_chars_def)
  show ?thesis
    using h executeTool_rejects_metacharacters [OF h, of initializeDefaultTools stub_tool_env "[]"]
    by simp
qed

text \<open>
  C2, as stated, fails: for the allow-listed invocation of \<open>nmap\<close> with \<open>-sS\<close> against
  \<open>example.com\<close> the one call made to start a process is \<open>exec\<close> of the single command
  line \<open>nmap -sS example.com\<close>, not a call with an argument vector.
\<close>

theorem executeTool_vector_counterexample:
  "tr_success (fst (executeTool initializeDefaultTools stub_tool_env nmap_sS_execution []))
   \<and> snd (executeTool initializeDefaultTools stub_tool_env nmap_sS_execution [])
       = [Exec ''nmap -sS example.com'' 300000]
   \<and> snd (executeTool initializeDefaultTools stub_tool_env nmap_sS_execution [])
       \<noteq> [spec_vector_launch nmap_config nmap_sS_execution 300000]"
  by (simp add: executeTool_def initializeDefaultTools_def nmap_config_def nmap_sS_execution_def
      stub_tool_env_def has_dangerous_def dangerous_chars_def baseArg_of_def buildCommand_def
      or_int_def spec_vector_launch_def Let_def)

text \<open>
  C2, amended.  For every invocation that passes validation and whose target contains
  none of the five metacharacters, \<open>executeTool\<close> makes exactly one call to start a
  process, and that call is \<open>exec\<close> of one command line: the command name, the arguments
  joined by single spaces and the target, separated by single spaces, under the call's
  timeout or else the tool's.  No argument vector is passed.
\<close>

theorem executeTool_launches_command_line:
  assumes "tools (toolName execution) = Some toolConfig"
    and "valid (validateArgs (args execution) (allowedArgs toolConfig))"
    and "\<not> has_dangerous (target execution)"
  shows "snd (executeTool tools env execution launches)
         = launches @ [Exec (command toolConfig @ '' '' @ join '' '' (args execution) @ '' ''
                              @ target execution)
                            (or_int (ex_timeout execution) (timeout toolConfig))]"
  using assms
  by (simp add: executeTool_def buildCommand_def Let_def split: exec_outcome.split)

theorem executeTool_launches_command_line_witness:
  "initializeDefaultTools (toolName nmap_sS_execution) = Some nmap_config
   \<and> valid (validateArgs (args nmap_sS_execution) (allowedArgs nmap_config))
   \<and> \<not> has_dangerous (target nmap_sS_execution)
   \<and> snd (executeTool initializeDefaultTools stub_tool_env nmap_sS_execution [])
       = [Exec ''nmap -sS example.com'' 300000]"
proof -
  have t: "initializeDefaultTools (toolName nmap_sS_execution) = Some nmap_config"
    by (simp add: initializeDefaultTools_def nmap_sS_execution_def)
  have v: "valid (validateArgs (args nmap_sS_execution) (allowedArgs nmap_config))"
    by (simp add: nmap_sS_execution_def nmap_config_def has_dangerous_def dangerous_chars_def
        baseArg_of_def)
  have g: "\<not> has_dangerous (target nmap_sS_execution)"
    by (simp add: nmap_sS_execution_def has_dangerous_def dangerous_chars_def)
  show ?thesis
    using t v g executeTool_launches_command_line
      [where tools = initializeDefaultTools and execution = nmap_sS_execution
         and toolConfig = nmap_config and env = stub_tool_env and launches = "[]", OF t v g]
    by (simp add: nmap_sS_execution_def nmap_config_def or_int_def)
qed


section \<open>Report generation: results\<close>

text \<open>
  C8, as stated, fails: a request with format \<open>pdf\<close> is answered with success and no error,
  and the file stored under the \<open>.pdf\<close> name holds the HTML rendering.
\<close>

theorem generateReport_pdf_counterexample:
  "rr_success (fst (generateReport stub_report_env pdf_config () no_files))
   \<and> rr_error (fst (generateReport stub_report_env pdf_config () no_files)) = None
   \<and> rr_filePath (fst (generateReport stub_report_env pdf_config () no_files))
       = ''/app/reports/report_r1_1000.pdf''
   \<and> snd (generateReport stub_report_env pdf_config () no_files) ''/app/reports/report_r1_1000.pdf''
       = Some ''<html></html>''"
  by (simp add: generateReport_def render_format_def stub_report_env_def pdf_config_def
      no_files_def path_join_def number_string_def decimal_digits.simps digit_char_def Let_def)

text \<open>
  C8, amended.  For every report request with format \<open>pdf\<close> whose HTML rendering and file
  write succeed, \<open>generateReport\<close> reports success without an error and stores the HTML
  text, unconverted, under a file name ending in \<open>.pdf\<close>; its size is that of the HTML.
  The error \<open>Unsupported report format\<close> is what a request gets whose format is none of
  \<open>html\<close>, \<open>json\<close> and \<open>pdf\<close>.
\<close>

theorem generateReport_pdf_stores_html:
  assumes "format reportConfig = ''pdf''"
    and "generateHTMLReport env reportData = Inr html"
    and "report_writeFile env
           (path_join (reportStoragePath env)
              (''report_'' @ new_reportId env @ ''_'' @ number_string (file_stamp env) @ ''.pdf''))
           html = None"
  shows "generateReport env reportConfig reportData files
         = (\<lparr>rr_success = True, rr_reportId = new_reportId env,
             rr_filePath = path_join (reportStoragePath env)
               (''report_'' @ new_reportId env @ ''_'' @ number_string (file_stamp env) @ ''.pdf''),
             rr_fileSize = length html, rr_error = None\<rparr>,
            files(path_join (reportStoragePath env)
               (''report_'' @ new_reportId env @ ''_'' @ number_string (file_stamp env) @ ''.pdf'')
              \<mapsto> html))
       \<and> (format other \<notin> set [''html'', ''json'', ''pdf''] \<longrightarrow>
            generateReport env other reportData files
            = (\<lparr>rr_success = False, rr_reportId = new_reportId env, rr_filePath = [],
                rr_fileSize = 0,
                rr_error = Some (''Unsupported report format: '' @ format other)\<rparr>, files))"
  using assms
  by (simp add: generateReport_def render_format_def report_failed_def Let_def)

theorem generateReport_pdf_stores_html_witness:
  "format pdf_config = ''pdf''
   \<and> generateHTMLReport stub_report_env () = Inr ''<html></html>''
   \<and> rr_success (fst (generateReport stub_report_env pdf_config () no_files))
   \<and> rr_fileSize (fst (generateReport stub_report_env pdf_config () no_files)) = 13
   \<and> rr_error (fst (generateReport stub_report_env docx_config () no_files))
       = Some ''Unsupported report format: docx''"
proof -
  have f: "format pdf_config = ''pdf''"
    by (simp add: pdf_config_def)
  have h: "generateHTMLReport stub_report_env () = Inr ''<html></html>''"
    by (simp add: stub_report_env_def)
  have w: "report_writeFile stub_report_env
             (path_join (reportStoragePath stub_report_env)
                (''report_'' @ new_reportId stub_report_env @ ''_''
                   @ number_string (file_stamp stub_report_env) @ ''.pdf''))
             ''<html></html>'' = None"
    by (simp add: stub_report_env_def)
  have o: "format docx_config \<notin> set [''html'', ''json'', ''pdf'']"
    and d: "format docx_config = ''docx''"
    by (simp_all add: docx_config_def)
  show ?thesis
    using f h o d generateReport_pdf_stores_html [OF f h w, where files = no_files and other = docx_config]
    by simp
qed


section \<open>Verification sandbox: results\<close>

text \<open>
  Where a child is started, the scan decides: a JavaScript job whose code was saved and
  whose child closed is confirmed exactly when its output holds a token of the JavaScript
  vocabulary, with score 80 against 20.
\<close>

lemma executePOC_javascript_scan:
  assumes "toLowerCase (language execution) = ''javascript''"
    and "poc_writeFile env
           (path_join (pocStoragePath env)
              (''poc_'' @ poc_id execution @ ''.'' @ getFileExtension (language execution)))
           (code execution) = None"
    and "\<forall>launch. child env launch = ChildClosed exit_code stdout stderr"
  shows "vulnerabilityConfirmed (fst (executePOC env execution sb))
           = list_ex (\<lambda>indicator. sublist indicator stdout) javascript_indicators"
    and "reliabilityScore (fst (executePOC env execution sb))
           = (if list_ex (\<lambda>indicator. sublist indicator stdout) javascript_indicators
              then 80 else unconfirmed_baseline)"
    and "length (sb_launches (snd (executePOC env execution sb))) = Suc (length (sb_launches sb))"
  using assms
  by (auto simp add: executePOC_def savePOCCode_def executeJavaScriptPOC_def spawn_child_def
      settle_runner_def settle_def analyzeJavaScriptOutput_def unconfirmed_baseline_def Let_def)

text \<open>
  C9 fails on the code for three of the four supported languages.  For a job in
  \<open>python\<close>, \<open>bash\<close> or \<open>shell\<close> whose code was saved, the runner throws before it
  calls \<open>spawn\<close>: no child is started and nothing is scanned; whatever the program would
  print, the result is the failed one of the \<open>catch\<close> block, unconfirmed with score 0.
\<close>

theorem executePOC_python_shell_never_scan:
  assumes "toLowerCase (language execution) \<in> set [''python'', ''bash'', ''shell'']"
    and "poc_writeFile env
           (path_join (pocStoragePath env)
              (''poc_'' @ poc_id execution @ ''.'' @ getFileExtension (language execution)))
           (code execution) = None"
  shows "fst (executePOC env execution sb) = poc_failed (ReferenceError_uninitialized ''process'')
       \<and> vulnerabilityConfirmed (fst (executePOC env execution sb)) = False
       \<and> reliabilityScore (fst (executePOC env execution sb)) = 0
       \<and> sb_launches (snd (executePOC env execution sb)) = sb_launches sb"
  using assms
  by (auto simp add: executePOC_def savePOCCode_def executePythonPOC_def executeShellPOC_def
      spread_own_process_env_def settle_runner_def poc_failed_def Let_def)

theorem executePOC_python_shell_never_scan_witness:
  "toLowerCase (language python_job) \<in> set [''python'', ''bash'', ''shell'']
   \<and> child plus_env (Spawn ''python3'' [] 30000) = ChildClosed (Some 0) ''[+] VULNERABILITY'' []
   \<and> analyzePythonOutput ''[+] VULNERABILITY'' []
   \<and> vulnerabilityConfirmed (fst (executePOC plus_env python_job empty_sandbox)) = False
   \<and> reliabilityScore (fst (executePOC plus_env python_job empty_sandbox)) = 0
   \<and> sb_launches (snd (executePOC plus_env python_job empty_sandbox)) = []"
proof -
  have l: "toLowerCase (language python_job) \<in> set [''python'', ''bash'', ''shell'']"
    by (simp add: python_job_def toLowerCase_def toLowerCase_char_def)
  have w: "poc_writeFile plus_env
           (path_join (pocStoragePath plus_env)
              (''poc_'' @ poc_id python_job @ ''.'' @ getFileExtension (language python_job)))
           (code python_job) = None"
    by (simp add: plus_env_def)
  have c: "child plus_env (Spawn ''python3'' [] 30000) = ChildClosed (Some 0) ''[+] VULNERABILITY'' []"
    by (simp add: plus_env_def)
  have a: "analyzePythonOutput ''[+] VULNERABILITY'' []"
    by (simp add: analyzePythonOutput_def python_indicators_def)
  have e: "sb_launches empty_sandbox = []"
    by (simp add: empty_sandbox_def)
  show ?thesis
    using l c a e executePOC_python_shell_never_scan [OF l w, of empty_sandbox]
    by (simp add: poc_failed_def)
qed


section \<open>Orchestrator: how one run moves a job\<close>

text \<open>
  Each lemma follows one block of \<open>executeTask\<close> and says what it does to the job's record
  and to the progress values written for it.
\<close>

lemma job_at_run_start:
  assumes "job_at k s st p started finished rows"
  shows "job_at k (run_start env k taskConfig s) ''running'' p (Some (started_now env)) finished
           (rows @ [p, p])"
  using assms
  by (auto simp add: job_at_def run_start_def mutate_def persisted_progress_def upsertExecution_def Let_def)

lemma job_at_catch:
  assumes "job_at k s st p started finished rows"
  shows "job_at k (executeTask_catch env k taskConfig err s) ''failed'' p started
           (Some (finished_now env)) (rows @ [p])"
  using assms
  by (auto simp add: job_at_def executeTask_catch_def mutate_def persisted_progress_def upsertExecution_def Let_def)

lemma job_at_mutate:
  assumes "job_at k s st p started finished rows"
    and "\<And>e. jobId (f e) = jobId e \<and> status (f e) = status e \<and> progress (f e) = progress e
            \<and> startedAt (f e) = startedAt e \<and> completedAt (f e) = completedAt e"
  shows "job_at k (mutate k f s) st p started finished rows"
  using assms by (auto simp add: job_at_def mutate_def persisted_progress_def)

lemma job_at_log_line:
  assumes "job_at k s st p started finished rows"
  shows "job_at k (log_line k m s) st p started finished rows"
  using assms by (auto simp add: job_at_def log_line_def persisted_progress_def appendLog_def)

lemma job_at_checkpoint:
  assumes "job_at k s st p started finished rows"
    and "\<And>e. jobId (f e) = jobId e \<and> status (f e) = status e
            \<and> startedAt (f e) = startedAt e \<and> completedAt (f e) = completedAt e"
  shows "job_at k (updateExecutionProgress k q stage (mutate k f s)) st q started finished (rows @ [q])"
  using assms
  by (auto simp add: job_at_def mutate_def updateExecutionProgress_def persisted_progress_def
      upsertExecution_def appendLog_def Let_def)

lemma job_at_run_init_ok:
  assumes "job_at k s st p started finished rows" and "llm_initialize env = None"
  shows "\<exists>s'. run_init env k s = (Inr (), s') \<and> job_at k s' st 10 started finished (rows @ [10])"
  using assms(2) job_at_checkpoint [OF assms(1), of "\<lambda>e. e\<lparr>progress := 10, currentStage := stage_target_analysis\<rparr>" 10 stage_target_analysis]
  by (simp add: run_init_def)

lemma job_at_verify:
  assumes "job_at k s st p started finished rows"
  shows "job_at k (snd (verifyVulnerabilities vf k i vs s)) st p started finished rows"
  using assms
proof (induction vs arbitrary: s i)
  case Nil
  then show ?case by simp
next
  case (Cons v vs)
  show ?case
  proof (cases "vf i v")
    case (Inl e)
    with Cons.IH [OF Cons.prems] show ?thesis
      by (simp add: split_beta)
  next
    case (Inr r)
    show ?thesis
    proof (cases "vulnerabilityConfirmed r")
      case True
      with Inr Cons.IH [OF job_at_log_line [OF Cons.prems, of "log_poc_verified (title v)"]]
      show ?thesis by (simp add: split_beta)
    next
      case False
      with Inr Cons.IH [OF Cons.prems] show ?thesis
        by (simp add: split_beta)
    qed
  qed
qed

lemma job_at_chain_ok:
  assumes j: "job_at k s st p started finished rows"
    and c: "executeChain env = Inr result" and ok: "chain_success result"
  shows "\<exists>rs vs s'. executePentestChain env taskConfig k s = (Inr (rs, vs), s')
           \<and> job_at k s' st (if chain_vulnerabilities result = [] then p else 60) started finished
                (rows @ (if chain_vulnerabilities result = [] then [] else [60]))"
proof -
  let ?s1 = "log_line k log_chain_start (mutate k (\<lambda>e. e\<lparr>currentStage := stage_chain\<rparr>) s)"
  let ?s2 = "mutate k (\<lambda>e. e\<lparr>logs := logs e @ [log_chain_done (length (chain_vulnerabilities result))]\<rparr>) ?s1"
  have j1: "job_at k ?s1 st p started finished rows"
    by (rule job_at_log_line, rule job_at_mutate [OF j]) simp
  have j2: "job_at k ?s2 st p started finished rows"
    by (rule job_at_mutate [OF j1]) simp
  show ?thesis
  proof (cases "chain_vulnerabilities result = []")
    case True
    with c ok j2 show ?thesis
      by (simp add: executePentestChain_def Let_def)
  next
    case False
    let ?s3 = "mutate k (\<lambda>e. e\<lparr>currentStage := stage_poc\<rparr>) ?s2"
    have j4: "job_at k (updateExecutionProgress k 60 stage_poc ?s3) st 60 started finished (rows @ [60])"
      by (rule job_at_checkpoint [OF j2]) simp
    have j3: "job_at k ?s3 st p started finished rows"
      by (rule job_at_mutate [OF j2]) simp
    then obtain e3 where e3: "activeExecutions ?s3 k = Some e3" "jobId e3 = k"
      by (auto simp add: job_at_def)
    have "job_at k (snd (verifyVulnerabilities (verify env) k 0 (chain_vulnerabilities result)
             (updateExecutionProgress k 60 stage_poc ?s3))) st 60 started finished (rows @ [60])"
      by (rule job_at_verify [OF j4])
    with c ok False e3 show ?thesis
      by (simp add: executePentestChain_def Let_def split_beta)
  qed
qed

lemma job_at_chain_fails:
  assumes j: "job_at k s st p started finished rows"
    and c: "executeChain env = Inl err \<or> (\<exists>result. executeChain env = Inr result \<and> \<not> chain_success result)"
  shows "\<exists>err' s'. executePentestChain env taskConfig k s = (Inl err', s')
           \<and> job_at k s' st p started finished rows"
proof -
  let ?s1 = "log_line k log_chain_start (mutate k (\<lambda>e. e\<lparr>currentStage := stage_chain\<rparr>) s)"
  have j1: "job_at k ?s1 st p started finished rows"
    by (rule job_at_log_line, rule job_at_mutate [OF j]) simp
  with c show ?thesis
    by (auto simp add: executePentestChain_def Let_def)
qed


lemma job_at_run_chain_ok:
  assumes j: "job_at k s st p started finished rows"
    and c: "executeChain env = Inr result" and ok: "chain_success result"
  shows "\<exists>rs vs s'. run_chain env k taskConfig s = (Inr (rs, vs), s')
           \<and> job_at k s' st 80 started finished
                (rows @ (if chain_vulnerabilities result = [] then [] else [60]) @ [80])"
proof -
  from job_at_chain_ok [OF j c ok, of taskConfig]
  obtain rs vs s1 where r: "executePentestChain env taskConfig k s = (Inr (rs, vs), s1)"
    and j1: "job_at k s1 st (if chain_vulnerabilities result = [] then p else 60) started finished
               (rows @ (if chain_vulnerabilities result = [] then [] else [60]))"
    by blast
  have "job_at k (updateExecutionProgress k 80 stage_report
          (mutate k (\<lambda>e. e\<lparr>results := rs, vulnerabilities := vs, progress := 80,
                           currentStage := stage_report\<rparr>) s1)) st 80 started finished
          ((rows @ (if chain_vulnerabilities result = [] then [] else [60])) @ [80])"
    by (rule job_at_checkpoint [OF j1]) simp
  with r show ?thesis by (simp add: run_chain_def)
qed

lemma job_at_run_chain_fails:
  assumes j: "job_at k s st p started finished rows"
    and c: "executeChain env = Inl err \<or> (\<exists>result. executeChain env = Inr result \<and> \<not> chain_success result)"
  shows "\<exists>err' s'. run_chain env k taskConfig s = (Inl err', s')
           \<and> job_at k s' st p started finished rows"
  using job_at_chain_fails [OF j c, of taskConfig] by (auto simp add: run_chain_def)

lemma job_at_run_report_fails:
  assumes j: "job_at k s st p started None rows"
  shows "\<exists>s'. run_report env k taskConfig rs vs s = (Inl (TypeError_undefined ''getTime''), s')
           \<and> job_at k s' st p started None rows"
proof -
  have j1: "job_at k (log_line k log_report s) st p started None rows"
    by (rule job_at_log_line [OF j])
  then show ?thesis
    by (auto simp add: run_report_def TaskManager_generateReport_def job_at_def Let_def)
qed

lemma job_at_run_report_ok:
  assumes j: "job_at k s st p (Some a) (Some b) rows"
  shows "\<exists>r s'. run_report env k taskConfig rs vs s = (Inr r, s')
           \<and> job_at k s' ''completed'' 100 (Some a) (Some (finished_now env))
                (rows @ [100, 100, 100])"
proof -
  let ?s1 = "log_line k log_report s"
  have j1: "job_at k ?s1 st p (Some a) (Some b) rows"
    by (rule job_at_log_line [OF j])
  then obtain e where e: "activeExecutions ?s1 k = Some e" "jobId e = k"
    "startedAt e = Some a" "completedAt e = Some b" "persisted_progress k ?s1 = rows"
    by (auto simp add: job_at_def)
  then show ?thesis
    by (auto simp add: run_report_def TaskManager_generateReport_def job_at_def Let_def
        mutate_def updateExecutionProgress_def persisted_progress_def upsertExecution_def
        appendLog_def)
qed

lemma job_at_present:
  "job_at k s st p started finished rows \<Longrightarrow> \<exists>e. activeExecutions s k = Some e"
  by (auto simp add: job_at_def)

lemma executeTask_init_fails:
  assumes j: "job_at k s st p started finished rows" and i: "llm_initialize env = Some err"
  shows "\<exists>s'. executeTask env k taskConfig s = (Inl err, s')
           \<and> job_at k s' ''failed'' p (Some (started_now env)) (Some (finished_now env))
                (rows @ [p, p, p])"
  using job_at_present [OF j] i
    job_at_catch [OF job_at_run_start [OF j, of env taskConfig], of env taskConfig err]
  by (auto simp add: executeTask_def executeTask_try_def run_init_def)

lemma executeTask_chain_fails:
  assumes j: "job_at k s st p started finished rows" and i: "llm_initialize env = None"
    and c: "executeChain env = Inl err \<or> (\<exists>result. executeChain env = Inr result \<and> \<not> chain_success result)"
  shows "\<exists>err' s'. executeTask env k taskConfig s = (Inl err', s')
           \<and> job_at k s' ''failed'' 10 (Some (started_now env)) (Some (finished_now env))
                (rows @ [p, p, 10, 10])"
proof -
  from job_at_run_init_ok [OF job_at_run_start [OF j, of env taskConfig] i]
  obtain s1 where r1: "run_init env k (run_start env k taskConfig s) = (Inr (), s1)"
    and j1: "job_at k s1 ''running'' 10 (Some (started_now env)) finished ((rows @ [p, p]) @ [10])"
    by blast
  from job_at_run_chain_fails [OF j1 c, of taskConfig]
  obtain err' s2 where r2: "run_chain env k taskConfig s1 = (Inl err', s2)"
    and j2: "job_at k s2 ''running'' 10 (Some (started_now env)) finished ((rows @ [p, p]) @ [10])"
    by blast
  from job_at_catch [OF j2, of env taskConfig err'] job_at_present [OF j] r1 r2
  show ?thesis by (auto simp add: executeTask_def executeTask_try_def)
qed

lemma executeTask_report_fails:
  assumes j: "job_at k s st p started None rows" and i: "llm_initialize env = None"
    and c: "executeChain env = Inr result" and ok: "chain_success result"
  shows "\<exists>s'. executeTask env k taskConfig s = (Inl (TypeError_undefined ''getTime''), s')
           \<and> job_at k s' ''failed'' 80 (Some (started_now env)) (Some (finished_now env))
                (rows @ [p, p, 10] @ (if chain_vulnerabilities result = [] then [] else [60])
                   @ [80, 80])"
proof -
  from job_at_run_init_ok [OF job_at_run_start [OF j, of env taskConfig] i]
  obtain s1 where r1: "run_init env k (run_start env k taskConfig s) = (Inr (), s1)"
    and j1: "job_at k s1 ''running'' 10 (Some (started_now env)) None ((rows @ [p, p]) @ [10])"
    by blast
  from job_at_run_chain_ok [OF j1 c ok, of taskConfig]
  obtain rs vs s2 where r2: "run_chain env k taskConfig s1 = (Inr (rs, vs), s2)"
    and j2: "job_at k s2 ''running'' 80 (Some (started_now env)) None
               (((rows @ [p, p]) @ [10]) @ (if chain_vulnerabilities result = [] then [] else [60]) @ [80])"
    by blast
  from job_at_run_report_fails [OF j2, of env taskConfig rs vs]
  obtain s3 where r3: "run_report env k taskConfig rs vs s2 = (Inl (TypeError_undefined ''getTime''), s3)"
    and j3: "job_at k s3 ''running'' 80 (Some (started_now env)) None
               (((rows @ [p, p]) @ [10]) @ (if chain_vulnerabilities result = [] then [] else [60]) @ [80])"
    by blast
  from job_at_catch [OF j3, of env taskConfig "TypeError_undefined ''getTime''"] job_at_present [OF j] r1 r2 r3
  show ?thesis by (auto simp add: executeTask_def executeTask_try_def)
qed

lemma executeTask_completes:
  assumes j: "job_at k s st p started (Some b) rows" and i: "llm_initialize env = None"
    and c: "executeChain env = Inr result" and ok: "chain_success result"
  shows "\<exists>r s'. executeTask env k taskConfig s = (Inr r, s')
           \<and> job_at k s' ''completed'' 100 (Some (started_now env)) (Some (finished_now env))
                (rows @ [p, p, 10] @ (if chain_vulnerabilities result = [] then [] else [60])
                   @ [80, 100, 100, 100])"
proof -
  from job_at_run_init_ok [OF job_at_run_start [OF j, of env taskConfig] i]
  obtain s1 where r1: "run_init env k (run_start env k taskConfig s) = (Inr (), s1)"
    and j1: "job_at k s1 ''running'' 10 (Some (started_now env)) (Some b) ((rows @ [p, p]) @ [10])"
    by blast
  from job_at_run_chain_ok [OF j1 c ok, of taskConfig]
  obtain rs vs s2 where r2: "run_chain env k taskConfig s1 = (Inr (rs, vs), s2)"
    and j2: "job_at k s2 ''running'' 80 (Some (started_now env)) (Some b)
               (((rows @ [p, p]) @ [10]) @ (if chain_vulnerabilities result = [] then [] else [60]) @ [80])"
    by blast
  from job_at_run_report_ok [OF j2, of env taskConfig rs vs]
  obtain r s3 where r3: "run_report env k taskConfig rs vs s2 = (Inr r, s3)"
    and j3: "job_at k s3 ''completed'' 100 (Some (started_now env)) (Some (finished_now env))
               ((((rows @ [p, p]) @ [10]) @ (if chain_vulnerabilities result = [] then [] else [60]) @ [80])
                  @ [100, 100, 100])"
    by blast
  from j3 job_at_present [OF j] r1 r2 r3
  show ?thesis by (auto simp add: executeTask_def executeTask_try_def)
qed

lemma job_at_createTask:
  "job_at (new_jobId env) (snd (createTask env taskConfig s)) ''pending'' 0 None None
     (persisted_progress (new_jobId env) s @ [0])"
  by (simp add: job_at_def createTask_def persisted_progress_def upsertExecution_def
      upsertTask_def appendLog_def Let_def or_null_int_def or_null_string_def)

section \<open>Orchestrator: results\<close>

text \<open>
  Within an attempt that starts from a record whose progress is at most 10 (the record
  \<open>createTask\<close> wrote has progress 0), the progress values that \<open>executeTask\<close> writes for
  the job never decrease, starting from the record's progress, and the record ends with
  the last value written.  Pausing, resuming and cancelling change neither the record's
  progress nor the values written.
\<close>

lemma first_attempt_progress_monotone:
  assumes "activeExecutions s k = Some execution"
    and "jobId execution = k"
    and "progress execution \<le> 10"
  shows "(\<exists>ps e'. persisted_progress k (snd (executeTask env k taskConfig s))
                   = persisted_progress k s @ ps
               \<and> sorted (progress execution # ps)
               \<and> activeExecutions (snd (executeTask env k taskConfig s)) k = Some e'
               \<and> progress e' = last (progress execution # ps))
       \<and> map_option progress (activeExecutions (snd (pauseTask q k s)) k) = Some (progress execution)
       \<and> map_option progress (activeExecutions (snd (resumeTask q k s)) k) = Some (progress execution)
       \<and> map_option progress (activeExecutions (snd (cancelTask q now k s)) k)
           = Some (progress execution)
       \<and> persisted_progress k (snd (pauseTask q k s)) = persisted_progress k s
       \<and> persisted_progress k (snd (resumeTask q k s)) = persisted_progress k s
       \<and> persisted_progress k (snd (cancelTask q now k s)) = persisted_progress k s"
proof -
  let ?p = "progress execution"
  have control:
    "map_option progress (activeExecutions (snd (pauseTask q k s)) k) = Some ?p
     \<and> map_option progress (activeExecutions (snd (resumeTask q k s)) k) = Some ?p
     \<and> map_option progress (activeExecutions (snd (cancelTask q now k s)) k) = Some ?p
     \<and> persisted_progress k (snd (pauseTask q k s)) = persisted_progress k s
     \<and> persisted_progress k (snd (resumeTask q k s)) = persisted_progress k s
     \<and> persisted_progress k (snd (cancelTask q now k s)) = persisted_progress k s"
    using assms(1)
    by (auto simp add: pauseTask_def resumeTask_def cancelTask_def persisted_progress_def
        split: option.splits sum.splits)
  have j: "job_at k s (status execution) ?p (startedAt execution) (completedAt execution)
             (persisted_progress k s)"
    using assms by (simp add: job_at_def)
  have wrap: "\<exists>ps e'. persisted_progress k s' = persisted_progress k s @ ps
                 \<and> sorted (?p # ps) \<and> activeExecutions s' k = Some e'
                 \<and> progress e' = last (?p # ps)"
    if "job_at k s' st' q a b (persisted_progress k s @ ps)" and "sorted (?p # ps)"
      and "q = last (?p # ps)" for s' st' q a b ps
    using that by (auto simp add: job_at_def)
  have main: "\<exists>ps e'. persisted_progress k (snd (executeTask env k taskConfig s))
                   = persisted_progress k s @ ps
               \<and> sorted (?p # ps)
               \<and> activeExecutions (snd (executeTask env k taskConfig s)) k = Some e'
               \<and> progress e' = last (?p # ps)"
  proof (cases "llm_initialize env")
    case (Some err)
    from executeTask_init_fails [OF j Some, of taskConfig]
    obtain s' where "executeTask env k taskConfig s = (Inl err, s')"
      and "job_at k s' ''failed'' ?p (Some (started_now env)) (Some (finished_now env))
             (persisted_progress k s @ [?p, ?p, ?p])"
      by blast
    then show ?thesis using wrap [of s' _ ?p _ _ "[?p, ?p, ?p]"] by simp
  next
    case None
    show ?thesis
    proof (cases "\<exists>result. executeChain env = Inr result \<and> chain_success result")
      case False
      then have c: "(\<exists>err. executeChain env = Inl err)
          \<or> (\<exists>result. executeChain env = Inr result \<and> \<not> chain_success result)"
        by (cases "executeChain env") auto
      then obtain err where c': "executeChain env = Inl err
          \<or> (\<exists>result. executeChain env = Inr result \<and> \<not> chain_success result)"
        by blast
      from executeTask_chain_fails [OF j None c', of taskConfig]
      obtain err' s' where "executeTask env k taskConfig s = (Inl err', s')"
        and "job_at k s' ''failed'' 10 (Some (started_now env)) (Some (finished_now env))
               (persisted_progress k s @ [?p, ?p, 10, 10])"
        by blast
      then show ?thesis using wrap [of s' _ 10 _ _ "[?p, ?p, 10, 10]"] assms(3) by simp
    next
      case True
      then obtain result where c: "executeChain env = Inr result" and ok: "chain_success result"
        by blast
      let ?six = "if chain_vulnerabilities result = [] then [] else [60::int]"
      show ?thesis
      proof (cases "completedAt execution")
        case None': None
        from j None' have j': "job_at k s (status execution) ?p (startedAt execution) None
                                 (persisted_progress k s)"
          by simp
        from executeTask_report_fails [OF j' None c ok, of taskConfig]
        obtain s' where "executeTask env k taskConfig s = (Inl (TypeError_undefined ''getTime''), s')"
          and "job_at k s' ''failed'' 80 (Some (started_now env)) (Some (finished_now env))
                 (persisted_progress k s @ [?p, ?p, 10] @ ?six @ [80, 80])"
          by blast
        then show ?thesis
          using wrap [of s' _ 80 _ _ "[?p, ?p, 10] @ ?six @ [80, 80]"] assms(3) by simp
      next
        case (Some b)
        from j Some have j': "job_at k s (status execution) ?p (startedAt execution) (Some b)
                                (persisted_progress k s)"
          by simp
        from executeTask_completes [OF j' None c ok, of taskConfig]
        obtain r s' where "executeTask env k taskConfig s = (Inr r, s')"
          and "job_at k s' ''completed'' 100 (Some (started_now env)) (Some (finished_now env))
                 (persisted_progress k s @ [?p, ?p, 10] @ ?six @ [80, 100, 100, 100])"
          by blast
        then show ?thesis
          using wrap [of s' _ 100 _ _ "[?p, ?p, 10] @ ?six @ [80, 100, 100, 100]"] assms(3)
          by simp
      qed
    qed
  qed
  from main control show ?thesis by blast
qed

text \<open>
  C3 fails on the code, through the defect of C5.  The first attempt on the fresh job,
  with all collaborators succeeding, ends failed at progress 80 because the report
  assembly throws; the queue is configured with three attempts, and the attempt that
  follows writes 80, 80 and then 10 for the same job: progress is lowered below a value
  recorded before.
\<close>

theorem retry_lowers_progress:
  "persisted_progress ''job-1'' t1_failed = [0, 0, 0, 10, 80, 80]
   \<and> map_option status (activeExecutions t1_failed ''job-1'') = Some ''failed''
   \<and> map_option progress (activeExecutions t1_failed ''job-1'') = Some 80
   \<and> persisted_progress ''job-1'' (snd (executeTask ok_exec_env ''job-1'' t1_config t1_failed))
       = persisted_progress ''job-1'' t1_failed @ [80, 80, 10, 80, 100, 100, 100]
   \<and> \<not> sorted [80, 80, 10, 80, 100, 100, (100::int)]"
proof -
  have i: "llm_initialize ok_exec_env = None"
    and c: "executeChain ok_exec_env
              = Inr \<lparr>chain_success = True, chain_results = [''scan''], chain_vulnerabilities = []\<rparr>"
    by (simp_all add: ok_exec_env_def)
  have j0: "job_at ''job-1'' t1_created ''pending'' 0 None None [0]"
    using job_at_createTask [of t1_create_env t1_config empty_manager]
    by (simp add: t1_created_def t1_create_env_def empty_manager_def persisted_progress_def)
  from executeTask_report_fails [OF j0 i c, of t1_config]
  have j1: "job_at ''job-1'' t1_failed ''failed'' 80 (Some (started_now ok_exec_env))
              (Some (finished_now ok_exec_env)) [0, 0, 0, 10, 80, 80]"
    by (auto simp add: t1_failed_def)
  from executeTask_completes [OF j1 i c, of t1_config]
  obtain r s2 where r2: "executeTask ok_exec_env ''job-1'' t1_config t1_failed = (Inr r, s2)"
    and j2: "job_at ''job-1'' s2 ''completed'' 100 (Some (started_now ok_exec_env))
               (Some (finished_now ok_exec_env))
               ([0, 0, 0, 10, 80, 80] @ [80, 80, 10, 80, 100, 100, 100])"
    by auto
  from j1 j2 r2 show ?thesis
    by (auto simp add: job_at_def)
qed

text \<open>
  C4.  \<open>createTask\<close> returns the task id with the generated job id; the status query that
  follows returns the record just written, pending at progress 0 with no start time, no
  findings and no log line; the same is what the table holds; and the pipeline run has
  only been requested, from the queue or, when the queue refused, by \<open>setImmediate\<close>.
\<close>

theorem createTask_returns_pending:
  "fst (createTask env taskConfig s) = (cfg_id taskConfig, new_jobId env)
   \<and> getTaskStatus (new_jobId env) (snd (createTask env taskConfig s))
       = Some \<lparr>jobId = new_jobId env, taskId = cfg_id taskConfig, status = ''pending'',
               progress = 0, currentStage = stage_initializing, results = [],
               vulnerabilities = [], logs = [], startedAt = None, completedAt = None,
               error = None\<rparr>
   \<and> getExecution (new_jobId env) (db (snd (createTask env taskConfig s)))
       = Some \<lparr>row_jobId = new_jobId env, row_taskId = cfg_id taskConfig,
               row_status = ''pending'', row_progress = 0,
               row_currentStage = stage_initializing, row_startedAt = None,
               row_completedAt = None, row_error = None\<rparr>
   \<and> requested (snd (createTask env taskConfig s))
       = requested s
         @ [case queue_add env of
              None \<Rightarrow> Queued (new_jobId env) taskConfig (cfg_priority taskConfig)
                        (case cfg_scheduledAt taskConfig of
                           None \<Rightarrow> 0
                         | Some t \<Rightarrow> t - delay_now env)
            | Some e \<Rightarrow> Immediate (new_jobId env) taskConfig]"
  by (simp add: createTask_def getTaskStatus_def getExecution_def upsertExecution_def
      upsertTask_def appendLog_def or_null_int_def or_null_string_def Let_def)

theorem createTask_returns_pending_witness:
  "fst (createTask t1_create_env t1_config empty_manager) = (''task_1'', ''job-1'')
   \<and> map_option status (getTaskStatus ''job-1'' t1_created) = Some ''pending''
   \<and> map_option progress (getTaskStatus ''job-1'' t1_created) = Some 0
   \<and> requested t1_created = [Queued ''job-1'' t1_config 3 0]"
  using createTask_returns_pending [of t1_create_env t1_config empty_manager]
  by (simp add: t1_created_def t1_create_env_def t1_config_def empty_manager_def)

text \<open>
  C5 fails on the code.  On a job as \<open>createTask\<close> leaves it, with the AI service
  initialised and the chain successful, the private \<open>generateReport\<close> reads
  \<open>completedAt\<close> before \<open>executeTask\<close> has set it: the attempt throws a \<open>TypeError\<close>, the
  job ends failed at progress 80, and the values written are 0, 0, 0, 10, 60 if there are
  findings, 80, 80.  The checkpoint 100 is not written.
\<close>

theorem first_attempt_fails_before_100:
  assumes "llm_initialize env = None"
    and "executeChain env = Inr result"
    and "chain_success result"
  shows "fst (executeTask env (new_jobId cenv) taskConfig (snd (createTask cenv taskConfig s)))
           = Inl (TypeError_undefined ''getTime'')
       \<and> map_option status
            (activeExecutions
               (snd (executeTask env (new_jobId cenv) taskConfig (snd (createTask cenv taskConfig s))))
               (new_jobId cenv))
           = Some ''failed''
       \<and> map_option progress
            (activeExecutions
               (snd (executeTask env (new_jobId cenv) taskConfig (snd (createTask cenv taskConfig s))))
               (new_jobId cenv))
           = Some 80
       \<and> persisted_progress (new_jobId cenv)
            (snd (executeTask env (new_jobId cenv) taskConfig (snd (createTask cenv taskConfig s))))
           = persisted_progress (new_jobId cenv) s
             @ [0, 0, 0, 10] @ (if chain_vulnerabilities result = [] then [] else [60]) @ [80, 80]"
  using executeTask_report_fails [OF job_at_createTask [of cenv taskConfig s] assms, of taskConfig]
  by (auto simp add: job_at_def)

theorem first_attempt_fails_before_100_witness:
  "llm_initialize ok_exec_env = None
   \<and> fst (executeTask ok_exec_env ''job-1'' t1_config t1_created)
       = Inl (TypeError_undefined ''getTime'')
   \<and> map_option status
        (activeExecutions (snd (executeTask ok_exec_env ''job-1'' t1_config t1_created)) ''job-1'')
       = Some ''failed''
   \<and> persisted_progress ''job-1'' (snd (executeTask ok_exec_env ''job-1'' t1_config t1_created))
       = [0, 0, 0, 10, 80, 80]"
proof -
  have i: "llm_initialize ok_exec_env = None"
    and c: "executeChain ok_exec_env
              = Inr \<lparr>chain_success = True, chain_results = [''scan''], chain_vulnerabilities = []\<rparr>"
    and ok: "chain_success \<lparr>chain_success = True, chain_results = [''scan''],
                            chain_vulnerabilities = []\<rparr>"
    by (simp_all add: ok_exec_env_def)
  show ?thesis
    using i first_attempt_fails_before_100 [OF i c ok, of t1_create_env t1_config empty_manager]
    by (simp add: t1_created_def t1_create_env_def empty_manager_def persisted_progress_def)
qed

lemma uuid_is_no_bull_id:
  assumes "is_uuid jid"
  shows "bull_id jid = None"
proof -
  from assms have len: "8 < length jid" and h: "jid ! 8 = CHR ''-''"
    by (simp_all add: is_uuid_def)
  have "\<not> is_digit (jid ! 8)"
    by (simp add: h is_digit_def)
  with len have "\<not> list_all is_digit jid"
    by (auto simp add: list_all_length)
  then show ?thesis by (simp add: bull_id_def)
qed

lemma u1_is_uuid: "is_uuid u1"
  by (simp add: u1_def is_uuid_def is_hex_def)

lemma u1_states:
  "job_at u1 u1_running ''running'' 0 (Some (started_now ok_exec_env)) None [0, 0, 0]"
  "job_at u1 u1_failed ''failed'' 80 (Some (started_now ok_exec_env))
     (Some (finished_now ok_exec_env)) [0, 0, 0, 10, 80, 80]"
  "job_at u1 u1_completed ''completed'' 100 (Some (started_now ok_exec_env))
     (Some (finished_now ok_exec_env)) ([0, 0, 0, 10, 80, 80] @ [80, 80, 10, 80, 100, 100, 100])"
proof -
  have i: "llm_initialize ok_exec_env = None"
    and c: "executeChain ok_exec_env
              = Inr \<lparr>chain_success = True, chain_results = [''scan''], chain_vulnerabilities = []\<rparr>"
    by (simp_all add: ok_exec_env_def)
  have j0: "job_at u1 u1_created ''pending'' 0 None None [0]"
    using job_at_createTask [of u1_create_env t1_config empty_manager]
    by (simp add: u1_created_def u1_create_env_def empty_manager_def persisted_progress_def)
  from job_at_run_start [OF j0, of ok_exec_env t1_config]
  show "job_at u1 u1_running ''running'' 0 (Some (started_now ok_exec_env)) None [0, 0, 0]"
    by (simp add: u1_running_def)
  from executeTask_report_fails [OF j0 i c, of t1_config]
  show j1: "job_at u1 u1_failed ''failed'' 80 (Some (started_now ok_exec_env))
              (Some (finished_now ok_exec_env)) [0, 0, 0, 10, 80, 80]"
    by (auto simp add: u1_failed_def)
  from executeTask_completes [OF j1 i c, of t1_config]
  show "job_at u1 u1_completed ''completed'' 100 (Some (started_now ok_exec_env))
          (Some (finished_now ok_exec_env)) ([0, 0, 0, 10, 80, 80] @ [80, 80, 10, 80, 100, 100, 100])"
    by (auto simp add: u1_completed_def)
qed

text \<open>
  C6.  A job id is a version-4 uuid, while the queue files its jobs under integer ids of
  its own.  So for every job, and so for every job that is completed or failed,
  \<open>cancelTask\<close> finds no job in the queue (or the lookup rejects): it returns false and
  leaves the whole state, and with it the job's record, exactly as it was.
\<close>

theorem cancelTask_returns_false_unchanged:
  assumes "is_uuid jid"
  shows "cancelTask q now jid s = (False, s)"
  using uuid_is_no_bull_id [OF assms]
  by (simp add: cancelTask_def getJob_def split: option.splits)

theorem cancelTask_returns_false_unchanged_witness:
  "is_uuid u1
   \<and> map_option status (activeExecutions u1_completed u1) = Some ''completed''
   \<and> cancelTask queue_with_job 4000 u1 u1_completed = (False, u1_completed)
   \<and> map_option status (activeExecutions u1_failed u1) = Some ''failed''
   \<and> cancelTask queue_with_job 4000 u1 u1_failed = (False, u1_failed)"
  using u1_is_uuid u1_states(2,3)
    cancelTask_returns_false_unchanged [OF u1_is_uuid, of queue_with_job 4000 u1_completed]
    cancelTask_returns_false_unchanged [OF u1_is_uuid, of queue_with_job 4000 u1_failed]
  by (auto simp add: job_at_def)





text \<open>
  C10.  For a job id that the in-memory map does not hold, \<open>executeTask\<close> throws
  \<open>Task execution not found\<close> and the state is exactly what it was; a row of the table
  for that id is still returned by the status query, rebuilt from the row and the logs.
\<close>

theorem executeTask_requires_in_memory_entry:
  assumes "activeExecutions s k = None"
  shows "executeTask env k taskConfig s = (Inl (Error ''Task execution not found''), s)
       \<and> (\<forall>row. getExecution k (db s) = Some row \<longrightarrow>
            getTaskStatus k s
              = Some \<lparr>jobId = row_jobId row, taskId = row_taskId row, status = row_status row,
                      progress = row_progress row, currentStage = row_currentStage row,
                      results = [], vulnerabilities = [],
                      logs = map log_message (getLogs k (db s)),
                      startedAt = or_null_int (row_startedAt row),
                      completedAt = or_null_int (row_completedAt row),
                      error = row_error row\<rparr>)"
  using assms by (simp add: executeTask_def getTaskStatus_def)

theorem executeTask_requires_in_memory_entry_witness:
  "activeExecutions persisted_only_manager ''job-1'' = None
   \<and> executeTask ok_exec_env ''job-1'' t1_config persisted_only_manager
       = (Inl (Error ''Task execution not found''), persisted_only_manager)
   \<and> map_option status (getTaskStatus ''job-1'' persisted_only_manager) = Some ''running''
   \<and> map_option progress (getTaskStatus ''job-1'' persisted_only_manager) = Some 40"
proof -
  have a: "activeExecutions persisted_only_manager ''job-1'' = None"
    by (simp add: persisted_only_manager_def empty_manager_def)
  have g: "getExecution ''job-1'' (db persisted_only_manager)
             = Some \<lparr>row_jobId = ''job-1'', row_taskId = ''task_1'', row_status = ''running'',
                     row_progress = 40, row_currentStage = stage_chain,
                     row_startedAt = Some 2000, row_completedAt = None, row_error = None\<rparr>"
    by (simp add: persisted_only_manager_def empty_manager_def getExecution_def)
  show ?thesis
    using a g executeTask_requires_in_memory_entry [OF a, of ok_exec_env t1_config]
    by simp
qed

end
